theory Spec2Isabelle
  imports Complex_Main "HOL-Library.Multiset"
begin

section \<open>Tensors, indexing and the errors of the tensor runtime\<close>

text \<open>
  The blocks of \<^verbatim>\<open>models/blocks.py\<close> compute on tensors. A vector is a list of
  numbers, a matrix a list of rows, a neighbor table a list of rows of integer indices.
  Numbers are reals. Of the 32-bit floats of the tensors the model keeps one effect,
  the underflow of \<^verbatim>\<open>torch.exp\<close> to zero (see \<open>radius_gaussian\<close>); the rounding of
  values in the normal range is outside the model. Every place where the source or the
  tensor runtime raises is a branch returning \<open>Inl\<close> of an error.
\<close>

text \<open>
  An \<^verbatim>\<open>IndexError\<close> carries its message. For an index tensor with an entry outside
  the indexed dimension the tensor runtime says
  \<^verbatim>\<open>index i is out of bounds for dimension d with size n\<close>: \<open>OutOfBounds i n\<close> holds
  the offending index and the size. \<open>ListIndexOutOfRange\<close> is the
  \<^verbatim>\<open>list index out of range\<close> of a Python list, \<open>DimensionOutOfRange\<close> the message for a
  dimension a tensor does not have.
\<close>

datatype index_message =
    OutOfBounds int nat
  | ListIndexOutOfRange
  | DimensionOutOfRange

datatype error =
    IndexError index_message
  | ValueError string
  | RuntimeError
  | TypeError
  | AttributeError
  | NameError
  | NonFinite

text \<open>
  \<open>IndexError\<close>, \<open>ValueError\<close>, \<open>RuntimeError\<close>, \<open>TypeError\<close>, \<open>AttributeError\<close> and
  \<open>NameError\<close> are the exceptions of the program and of the tensor runtime (a shape or
  index error of \<^verbatim>\<open>gather\<close>, \<^verbatim>\<open>view\<close>, \<^verbatim>\<open>einsum\<close> and the like is a \<open>RuntimeError\<close>).
  \<open>NonFinite\<close> is no exception: it stands for a result of the floating-point
  computation that holds an infinity or a NaN after a division by zero, which a real
  number cannot stand for.
\<close>

type_synonym vec = "real list"
type_synonym matrix = "real list list"
type_synonym table = "int list list"

text \<open>
  \<^verbatim>\<open>s[idx, :]\<close> with an integer index tensor: an index \<open>i\<close> with \<open>-n \<le> i < n\<close> reads
  row \<open>i\<close>, counted from the end when negative; any other index raises, and the error
  names the index and the number of rows. When several entries are out of range the
  model names the first one in row-major order.
\<close>

definition index_ok :: "nat \<Rightarrow> int \<Rightarrow> bool" where
  "index_ok n i = (- int n \<le> i \<and> i < int n)"

definition wrap_index :: "nat \<Rightarrow> int \<Rightarrow> nat" where
  "wrap_index n i = (if i < 0 then nat (int n + i) else nat i)"

definition index_rows :: "'a list \<Rightarrow> int list \<Rightarrow> error + 'a list" where
  "index_rows s idx =
     (case find (\<lambda>i. \<not> index_ok (length s) i) idx of
        None \<Rightarrow> Inr (map (\<lambda>i. s ! wrap_index (length s) i) idx)
      | Some i \<Rightarrow> Inl (IndexError (OutOfBounds i (length s))))"

definition index_rows2 :: "'a list \<Rightarrow> table \<Rightarrow> error + 'a list list" where
  "index_rows2 s idx =
     (case find (\<lambda>i. \<not> index_ok (length s) i) (concat idx) of
        None \<Rightarrow> Inr (map (map (\<lambda>i. s ! wrap_index (length s) i)) idx)
      | Some i \<Rightarrow> Inl (IndexError (OutOfBounds i (length s))))"

text \<open>
  \<^verbatim>\<open>x.gather(0, idx)\<close>: every index must lie in \<open>0 \<le> i < n\<close>; a negative index is
  not wrapped but refused.
\<close>

definition gather_ok :: "nat \<Rightarrow> int \<Rightarrow> bool" where
  "gather_ok n i = (0 \<le> i \<and> i < int n)"

definition torch_gather :: "'a list \<Rightarrow> int list \<Rightarrow> error + 'a list" where
  "torch_gather x idx =
     (if list_all (gather_ok (length x)) idx
      then Inr (map (\<lambda>i. x ! nat i) idx)
      else Inl RuntimeError)"

definition torch_gather2 :: "'a list \<Rightarrow> table \<Rightarrow> error + 'a list list" where
  "torch_gather2 x idx =
     (if list_all (list_all (gather_ok (length x))) idx
      then Inr (map (map (\<lambda>i. x ! nat i)) idx)
      else Inl RuntimeError)"

text \<open>
  \<^verbatim>\<open>gather(x, idx, method=2)\<close> for a one-dimensional and for a two-dimensional index
  tensor. Method 0 is plain indexing, method 1 expands a two-dimensional index (its
  \<^verbatim>\<open>idx.unsqueeze(2)\<close> raises on a one-dimensional one), method 2 expands both tensors
  and gathers along dimension 0, any other method raises.
\<close>

definition gather :: "'a list \<Rightarrow> int list \<Rightarrow> nat \<Rightarrow> error + 'a list" where
  "gather x idx method =
     (if method = 0 then index_rows x idx
      else if method = 1 then Inl (IndexError DimensionOutOfRange)
      else if method = 2 then torch_gather x idx
      else Inl (ValueError ''Unkown method''))"

definition gather2 :: "'a list \<Rightarrow> table \<Rightarrow> nat \<Rightarrow> error + 'a list list" where
  "gather2 x idx method =
     (if method = 0 then index_rows2 x idx
      else if method = 1 then torch_gather2 x idx
      else if method = 2 then torch_gather2 x idx
      else Inl (ValueError ''Unkown method''))"

text \<open>
  \<^verbatim>\<open>torch.zeros_like(x[:1, :])\<close>: one row of zeros as wide as the rows of \<open>x\<close>, and no
  row at all when \<open>x\<close> has none. \<^verbatim>\<open>inds[:, 0]\<close>: the first column of a table, which
  raises when the table has no column.
\<close>

definition zeros_like_first :: "matrix \<Rightarrow> matrix" where
  "zeros_like_first x = map (map (\<lambda>_. 0)) (take 1 x)"

definition first_column :: "table \<Rightarrow> error + int list" where
  "first_column inds =
     (if list_all (\<lambda>r. r \<noteq> []) inds then Inr (map hd inds)
      else Inl (IndexError (OutOfBounds 0 0)))"

subsection \<open>Pooling\<close>

definition closest_pool :: "matrix \<Rightarrow> table \<Rightarrow> error + matrix" where
  "closest_pool x inds =
     (let x' = x @ zeros_like_first x in
      case first_column inds of
        Inl e \<Rightarrow> Inl e
      | Inr c \<Rightarrow> gather x' c 2)"

subsection \<open>Sequencing of failing steps\<close>

definition and_then :: "error + 'a \<Rightarrow> ('a \<Rightarrow> error + 'b) \<Rightarrow> error + 'b" where
  "and_then m f = (case m of Inl e \<Rightarrow> Inl e | Inr v \<Rightarrow> f v)"

fun collect :: "('a \<Rightarrow> error + 'b) \<Rightarrow> 'a list \<Rightarrow> error + 'b list" where
  "collect f [] = Inr []"
| "collect f (x # xs) =
     and_then (f x) (\<lambda>y. and_then (collect f xs) (\<lambda>ys. Inr (y # ys)))"

text \<open>
  An elementwise operation on two tensors along one dimension: the sizes are equal,
  or one of them is 1 and is repeated; anything else is a shape error.
\<close>

definition broadcast2 :: "('a \<Rightarrow> 'b \<Rightarrow> 'c) \<Rightarrow> 'a list \<Rightarrow> 'b list \<Rightarrow> error + 'c list" where
  "broadcast2 f xs ys =
     (if length xs = length ys then Inr (map2 f xs ys)
      else if length xs = 1 then Inr (map (f (hd xs)) ys)
      else if length ys = 1 then Inr (map (\<lambda>x. f x (hd ys)) xs)
      else Inl RuntimeError)"

text \<open>\<^verbatim>\<open>t.view(-1, n)\<close> on a flat list: consecutive pieces of \<open>n\<close> entries.\<close>

definition chunks :: "nat \<Rightarrow> 'a list \<Rightarrow> 'a list list" where
  "chunks n xs = map (\<lambda>i. take n (drop (i * n) xs)) [0..<length xs div n]"

definition columns :: "nat \<Rightarrow> 'a list list \<Rightarrow> 'a list list" where
  "columns n rows = map (\<lambda>j. map (\<lambda>row. row ! j) rows) [0..<n]"

section \<open>Points and the tri-plane tensor field\<close>

text \<open>
  Points are three-dimensional, as the \<^verbatim>\<open>reshape(-1, 3)\<close> and \<^verbatim>\<open>view(N, -1, 3)\<close> of
  the source fix it. The shadow point appended to the support points is
  \<^verbatim>\<open>torch.zeros_like(s_pts[:1, :]) + 1e6\<close>; nothing is appended to an empty support.
\<close>

type_synonym point = "real \<times> real \<times> real"
type_synonym plane = "matrix list"

definition psub :: "point \<Rightarrow> point \<Rightarrow> point" where
  "psub p q = (case p of (a, b, c) \<Rightarrow> case q of (x, y, z) \<Rightarrow> (a - x, b - y, c - z))"

definition padd :: "point \<Rightarrow> point \<Rightarrow> point" where
  "padd p q = (case p of (a, b, c) \<Rightarrow> case q of (x, y, z) \<Rightarrow> (a + x, b + y, c + z))"

definition pscale :: "real \<Rightarrow> point \<Rightarrow> point" where
  "pscale r p = (case p of (a, b, c) \<Rightarrow> (a * r, b * r, c * r))"

definition sq_norm :: "point \<Rightarrow> real" where
  "sq_norm p = (case p of (a, b, c) \<Rightarrow> a\<^sup>2 + b\<^sup>2 + c\<^sup>2)"

definition coords_of :: "point \<Rightarrow> vec" where
  "coords_of p = (case p of (a, b, c) \<Rightarrow> [a, b, c])"

definition coord :: "point \<Rightarrow> nat \<Rightarrow> real" where
  "coord p a = coords_of p ! a"

definition shadow_point :: point where
  "shadow_point = (0 + 1000000, 0 + 1000000, 0 + 1000000)"

definition add_shadow_point :: "point list \<Rightarrow> point list" where
  "add_shadow_point s_pts = s_pts @ map (\<lambda>_. shadow_point) (take 1 s_pts)"

definition matMode :: "(nat \<times> nat) list" where
  "matMode = [(0, 1), (0, 2), (1, 2)]"

definition vecMode :: "nat list" where
  "vecMode = [2, 1, 0]"

subsection \<open>Bilinear grid sampling\<close>

text \<open>
  \<^verbatim>\<open>F.grid_sample(input, grid, align_corners=True)\<close> with its defaults (bilinear
  interpolation, zero padding), after the tensor library's definition: a grid
  coordinate \<open>c\<close> in \<open>[-1, 1]\<close> addresses the pixel position \<open>(c + 1) / 2 * (size - 1)\<close>, the
  first grid coordinate runs along the width (the last dimension of the input), the four
  surrounding pixels are weighted by the opposite areas, and a pixel outside the input
  counts as 0. An input without spatial extent is refused.
\<close>

definition pixel :: "matrix \<Rightarrow> int \<Rightarrow> int \<Rightarrow> real" where
  "pixel img iy ix =
     (if 0 \<le> iy \<and> iy < int (length img) \<and> 0 \<le> ix \<and> ix < int (length (img ! nat iy))
      then img ! nat iy ! nat ix else 0)"

definition unnormalize :: "nat \<Rightarrow> real \<Rightarrow> real" where
  "unnormalize n c = (c + 1) / 2 * (real n - 1)"

definition grid_sample_point :: "matrix \<Rightarrow> real \<times> real \<Rightarrow> real" where
  "grid_sample_point img g =
     (case g of (gx, gy) \<Rightarrow>
        let ix = unnormalize (length (hd img)) gx;
            iy = unnormalize (length img) gy;
            ix_nw = \<lfloor>ix\<rfloor>; iy_nw = \<lfloor>iy\<rfloor>;
            ix_ne = ix_nw + 1; iy_ne = iy_nw;
            ix_sw = ix_nw; iy_sw = iy_nw + 1;
            ix_se = ix_nw + 1; iy_se = iy_nw + 1;
            nw = (of_int ix_se - ix) * (of_int iy_se - iy);
            ne = (ix - of_int ix_sw) * (of_int iy_sw - iy);
            sw = (of_int ix_ne - ix) * (iy - of_int iy_ne);
            se = (ix - of_int ix_nw) * (iy - of_int iy_nw)
        in pixel img iy_nw ix_nw * nw + pixel img iy_ne ix_ne * ne
           + pixel img iy_sw ix_sw * sw + pixel img iy_se ix_se * se)"

definition grid_sample :: "plane \<Rightarrow> (real \<times> real) list \<Rightarrow> error + matrix" where
  "grid_sample input grid =
     (if list_ex (\<lambda>img. img = [] \<or> hd img = []) input then Inl RuntimeError
      else Inr (map (\<lambda>img. map (grid_sample_point img) grid) input))"

subsection \<open>The tensor field\<close>

text \<open>
  \<^verbatim>\<open>tensor_field(xyz, nei_plane, mlp_map)\<close>: the points are flattened, projected on the
  three coordinate pairs of \<open>matMode\<close>, each factor plane is sampled at its pair, and the
  samples, one row per point, are summed (\<open>no_mlp\<close>) or concatenated and passed to
  \<open>mlp_map\<close>. \<open>mlp_map\<close> is an \<^verbatim>\<open>Mlps\<close> network of \<^verbatim>\<open>utils/TriplaneConv_util\<close>, whose code
  is not part of the sources here: it is a parameter, a map from a matrix with one row
  per point to such a matrix, which may fail.
\<close>

definition nei_coordinate_plane :: "point list \<Rightarrow> (real \<times> real) list list" where
  "nei_coordinate_plane xyz_nei =
     map (\<lambda>(a, b). map (\<lambda>p. (coord p a, coord p b)) xyz_nei) matMode"

definition sample_planes :: "plane list \<Rightarrow> point list \<Rightarrow> error + matrix list" where
  "sample_planes nei_plane xyz_nei =
     collect (\<lambda>idx_plane.
        if idx_plane < length (nei_coordinate_plane xyz_nei)
        then (if xyz_nei = [] then Inl RuntimeError
              else grid_sample (nei_plane ! idx_plane) (nei_coordinate_plane xyz_nei ! idx_plane))
        else Inl (IndexError (OutOfBounds (int idx_plane)
                                (length (nei_coordinate_plane xyz_nei)))))
       [0..<length nei_plane]"

definition sum_stack :: "matrix list \<Rightarrow> error + matrix" where
  "sum_stack ms =
     (if ms = [] \<or> list_ex (\<lambda>m. length m \<noteq> length (hd ms)) ms then Inl RuntimeError
      else Inr (foldl (map2 (map2 (+))) (hd ms) (tl ms)))"

definition tensor_field ::
  "bool \<Rightarrow> plane list \<Rightarrow> (matrix \<Rightarrow> error + matrix) \<Rightarrow> point list list \<Rightarrow> error + matrix" where
  "tensor_field no_mlp nei_plane mlp_map xyz =
     (let xyz_nei = concat xyz; N = length xyz_nei in
      and_then (sample_planes nei_plane xyz_nei) (\<lambda>nei_plane_coef_point.
        if no_mlp
        then and_then (sum_stack nei_plane_coef_point) (\<lambda>summed. Inr (columns N summed))
        else if nei_plane_coef_point = [] then Inl RuntimeError
        else mlp_map (columns N (concat nei_plane_coef_point))))"

section \<open>Influence functions\<close>

text \<open>
  \<^verbatim>\<open>radius_gaussian\<close> computes \<^verbatim>\<open>torch.exp\<close> on a tensor of 32-bit floats. The least
  positive 32-bit float is \<^verbatim>\<open>2^-149\<close>; a positive result up to half of it,
  \<^verbatim>\<open>2^-150\<close>, is rounded to zero. \<open>exp_float32\<close> is the exponential with this
  underflow and without the rounding of larger results. Its argument is never
  positive in the program (a squared distance over a positive denominator, negated),
  so that no overflow arises.
\<close>

definition float32_underflow :: real where
  "float32_underflow = 1 / 2 ^ 150"

definition exp_float32 :: "real \<Rightarrow> real" where
  "exp_float32 v = (if exp v \<le> float32_underflow then 0 else exp v)"

definition radius_gaussian :: "real \<Rightarrow> real \<Rightarrow> real \<Rightarrow> real" where
  "radius_gaussian sq_r sig eps = exp_float32 (- sq_r / (2 * sig\<^sup>2 + eps))"

definition default_eps :: real where
  "default_eps = 1 / 10 ^ 9"

definition influence_linear :: "real \<Rightarrow> real \<Rightarrow> real" where
  "influence_linear KP_extent sq_d = max (1 - sqrt sq_d / KP_extent) 0"

definition influence_gaussian :: "real \<Rightarrow> real \<Rightarrow> real" where
  "influence_gaussian KP_extent sq_d =
     (let sigma = KP_extent * (3 / 10) in radius_gaussian sq_d sigma default_eps)"

section \<open>Grid nodes\<close>

text \<open>
  The coordinate of node \<open>i\<close> of a grid with \<open>res\<close> nodes per axis, in the two
  conventions at hand: \<open>node_unit\<close> follows the specification's words (coordinates
  normalized to \<open>[0, 1]\<close> per axis), \<open>node_aligned\<close> is the aligned-corners convention of
  \<^verbatim>\<open>grid_sample\<close> (coordinates in \<open>[-1, 1]\<close>). \<open>plane_ok G\<close> says that every channel of a
  factor plane is a \<open>G \<times> G\<close> image.
\<close>

definition node_unit :: "nat \<Rightarrow> nat \<Rightarrow> real" where
  "node_unit res i = real i / (real res - 1)"

definition node_aligned :: "nat \<Rightarrow> nat \<Rightarrow> real" where
  "node_aligned res i = 2 * real i / (real res - 1) - 1"

definition plane_ok :: "nat \<Rightarrow> plane \<Rightarrow> bool" where
  "plane_ok G pl = list_all (\<lambda>img. length img = G \<and> list_all (\<lambda>row. length row = G) img) pl"

definition demo_plane :: plane where
  "demo_plane = [[[1, 2], [3, 4]]]"

section \<open>The kernel-point convolution operator\<close>

text \<open>
  The line printed by \<^verbatim>\<open>KPConv.forward\<close>,
  \<^verbatim>\<open>"wrong_dim: neighb_inds=" + str(max.item()) + " shape= " + str(shape)\<close>,
  is the message \<open>WrongDim max shape\<close>.
\<close>

datatype message = WrongDim int nat

text \<open>\<^verbatim>\<open>nn.Linear\<close>: \<open>y = x W\<^sup>T + b\<close>, with one row of \<open>W\<close> per output.\<close>

record nn_linear =
  weight :: matrix
  bias :: vec

definition linear_map :: "nn_linear \<Rightarrow> vec \<Rightarrow> vec" where
  "linear_map l v = map2 (\<lambda>w b. sum_list (map2 (*) v w) + b) (weight l) (bias l)"

definition apply_linear :: "nn_linear \<Rightarrow> vec \<Rightarrow> error + vec" where
  "apply_linear l v =
     (if list_all (\<lambda>w. length w = length v) (weight l) \<and> length (bias l) = length (weight l)
      then Inr (linear_map l v)
      else Inl RuntimeError)"

text \<open>
  The attributes \<^verbatim>\<open>KPConv.__init__\<close> sets, in three groups: the configuration (plain
  values), the learned parameters (tensors and sub-networks; \<open>mlp_map\<close> stands for the
  \<^verbatim>\<open>Mlps\<close> network with its weights) and the scratch attributes that \<^verbatim>\<open>forward\<close>
  assigns for the regularization loss. The offset sub-operator is an operator itself.
\<close>

record kp_config =
  K :: nat
  p_dim :: nat
  in_channels :: nat
  out_channels :: nat
  radius :: real
  KP_extent :: real
  fixed_kernel_points :: string
  KP_influence :: string
  aggregation_mode :: string
  deformable :: bool
  modulated :: bool
  conv_method :: string
  generative_kernel_points :: bool
  no_mlp :: bool
  LoDs :: bool
  baseGridSize :: nat
  n_comp :: nat
  layer_ind :: nat
  neiGridSize :: nat
  layer_ind2neighbor :: "nat list"
  offset_dim :: "nat option"

record kp_params =
  kernel_points_generator :: nn_linear
  nei_plane :: "plane list"
  mlp_map :: "matrix \<Rightarrow> error + matrix"
  matrice :: matrix
  weights :: "matrix list"
  offset_bias :: "vec option"
  kernel_points :: "point list"

record kp_scratch =
  min_d2 :: "matrix option"
  deformed_KP :: "point list list option"
  offset_features :: "matrix option"

datatype kpconv =
  KPConv (config: kp_config) (params: kp_params) (scratch: kp_scratch)
    (offset_conv: "kpconv option")

subsection \<open>Construction\<close>

text \<open>
  The values the constructor draws at random or obtains from code outside these
  sources are given by an environment: the fresh \<^verbatim>\<open>nn.Linear\<close>, \<^verbatim>\<open>Mlps\<close> and \<^verbatim>\<open>ScoreNet\<close> networks, the
  normal and Kaiming draws, and the kernel-point layout provider \<^verbatim>\<open>load_kernels\<close> of
  \<^verbatim>\<open>kernels/kernel_points\<close> (radius, count, dimension and fixed-point policy to the
  offsets). The layer index is a natural number.
\<close>

record initializers =
  new_Linear :: "nat \<Rightarrow> nat \<Rightarrow> nn_linear"
  new_Mlps :: "nat \<Rightarrow> nat list \<Rightarrow> (matrix \<Rightarrow> error + matrix)"
  new_ScoreNet :: "nat \<Rightarrow> nat \<Rightarrow> nat list \<Rightarrow> (point list list \<Rightarrow> error + real list list list)"
  randn :: "nat \<Rightarrow> nat \<Rightarrow> nat \<Rightarrow> nat \<Rightarrow> real"
  kaiming_normal :: "nat \<Rightarrow> nat \<Rightarrow> nat \<Rightarrow> matrix"
  kaiming_uniform :: "nat \<Rightarrow> nat \<Rightarrow> nat \<Rightarrow> matrix list"
  load_kernels :: "real \<Rightarrow> nat \<Rightarrow> nat \<Rightarrow> string \<Rightarrow> point list"

definition init_one_svd :: "initializers \<Rightarrow> nat \<Rightarrow> nat \<Rightarrow> real \<Rightarrow> plane list" where
  "init_one_svd env n_component neighborGridSize scale =
     map (\<lambda>i. map (\<lambda>c. map (\<lambda>r. map (\<lambda>w. scale * randn env i c r w)
                                   [0..<neighborGridSize])
                          [0..<neighborGridSize])
                [0..<n_component])
         [0..<length vecMode]"

definition KPConv_attributes ::
  "initializers \<Rightarrow> nat \<Rightarrow> nat \<Rightarrow> nat \<Rightarrow> nat \<Rightarrow> real \<Rightarrow> real \<Rightarrow> nat \<Rightarrow> string \<Rightarrow> string
     \<Rightarrow> string \<Rightarrow> bool \<Rightarrow> bool \<Rightarrow> kpconv option \<Rightarrow> error + kpconv" where
  "KPConv_attributes env kernel_size pd cin cout extent rad li fixed influence aggregation
       deform modul sub =
     (let k = 10;
          lods = True;
          base = 128;
          ncomp = 8;
          grid = (if lods then base div 2 ^ li else base);
          l2n = [28, 32, 41, 40, 36];
          odim = (if deform then Some (if modul then (pd + 1) * k else pd * k) else None)
      in if li < length l2n
         then Inr (KPConv
           \<lparr> K = k, p_dim = pd, in_channels = cin, out_channels = cout, radius = rad,
             KP_extent = extent, fixed_kernel_points = fixed, KP_influence = influence,
             aggregation_mode = aggregation, deformable = deform, modulated = modul,
             conv_method = ''Triplanes'', generative_kernel_points = True, no_mlp = False,
             LoDs = lods, baseGridSize = base, n_comp = ncomp, layer_ind = li,
             neiGridSize = grid, layer_ind2neighbor = l2n, offset_dim = odim \<rparr>
           \<lparr> kernel_points_generator = new_Linear env (l2n ! li * 3) (k * 3),
             nei_plane = init_one_svd env ncomp grid (1 / 10),
             mlp_map = new_Mlps env (3 * ncomp) [cin * cout],
             matrice = kaiming_normal env ncomp cin cout,
             weights = kaiming_uniform env k cin cout,
             offset_bias = (case odim of None \<Rightarrow> None | Some d \<Rightarrow> Some (replicate d 0)),
             kernel_points = load_kernels env rad k pd fixed \<rparr>
           \<lparr> min_d2 = None, deformed_KP = None, offset_features = None \<rparr>
           sub)
         else Inl (IndexError ListIndexOutOfRange))"

text \<open>
  \<^verbatim>\<open>KPConv.__init__\<close>. A deformable operator builds its offset sub-operator by a call of
  the constructor with \<^verbatim>\<open>self.K\<close> kernel points, \<^verbatim>\<open>offset_dim\<close> output channels and the
  defaults \<^verbatim>\<open>deformable=False, modulated=False\<close>; \<open>env_offset\<close> gives the values drawn for
  the sub-operator.
\<close>

definition KPConv_init ::
  "initializers \<Rightarrow> initializers \<Rightarrow> nat \<Rightarrow> nat \<Rightarrow> nat \<Rightarrow> nat \<Rightarrow> real \<Rightarrow> real \<Rightarrow> nat
     \<Rightarrow> string \<Rightarrow> string \<Rightarrow> string \<Rightarrow> bool \<Rightarrow> bool \<Rightarrow> error + kpconv" where
  "KPConv_init env env_offset kernel_size pd cin cout extent rad li fixed influence aggregation
       deform modul =
     (if deform
      then and_then
             (KPConv_attributes env_offset 10 pd cin (if modul then (pd + 1) * 10 else pd * 10)
                extent rad li fixed influence aggregation False False None)
             (\<lambda>sub. KPConv_attributes env kernel_size pd cin cout extent rad li fixed influence
                      aggregation deform modul (Some sub))
      else KPConv_attributes env kernel_size pd cin cout extent rad li fixed influence
             aggregation deform modul None)"

subsection \<open>Offset generation\<close>

text \<open>
  \<^verbatim>\<open>offset_features[:, :p_dim * K].view(-1, K, p_dim)\<close> and the modulations
  \<^verbatim>\<open>2 * sigmoid(offset_features[:, p_dim * K:])\<close>. A row is viewed as \<open>K\<close> points; a row
  of another width, or a point dimension other than 3, is a shape error here.
\<close>

definition point_of :: "vec \<Rightarrow> point" where
  "point_of v = (v ! 0, v ! 1, v ! 2)"

definition view_points :: "nat \<Rightarrow> nat \<Rightarrow> vec \<Rightarrow> error + point list" where
  "view_points k pd row =
     (if pd = 3 \<and> length row = k * 3 then Inr (map point_of (chunks 3 row))
      else Inl RuntimeError)"

definition sigmoid :: "real \<Rightarrow> real" where
  "sigmoid v = 1 / (1 + exp (- v))"

definition add_bias :: "matrix \<Rightarrow> vec \<Rightarrow> error + matrix" where
  "add_bias m b = collect (\<lambda>row. broadcast2 (+) row b) m"

definition split_offsets ::
  "kp_config \<Rightarrow> matrix \<Rightarrow> error + (point list list \<times> matrix option)" where
  "split_offsets cfg feats =
     (if modulated cfg
      then and_then
             (collect (\<lambda>row. view_points (K cfg) (p_dim cfg) (take (p_dim cfg * K cfg) row)) feats)
             (\<lambda>unscaled_offsets.
                Inr (map (map (pscale (KP_extent cfg))) unscaled_offsets,
                     Some (map (\<lambda>row. map (\<lambda>v. 2 * sigmoid v) (drop (p_dim cfg * K cfg) row))
                             feats)))
      else and_then
             (collect (\<lambda>row. view_points (K cfg) (p_dim cfg) row) feats)
             (\<lambda>unscaled_offsets.
                Inr (map (map (pscale (KP_extent cfg))) unscaled_offsets, None)))"

subsection \<open>Neighborhoods and kernel points\<close>

definition table_max :: "table \<Rightarrow> error + int" where
  "table_max inds =
     (if concat inds = [] then Inl RuntimeError else Inr (Max (set (concat inds))))"

definition wrong_dim :: "int \<Rightarrow> nat \<Rightarrow> message list" where
  "wrong_dim mx shape = (if mx \<ge> int shape then [WrongDim mx shape] else [])"

definition center_neighborhoods :: "point list list \<Rightarrow> point list \<Rightarrow> error + point list list" where
  "center_neighborhoods neighbors q_pts =
     broadcast2 (\<lambda>row q. map (\<lambda>p. psub p q) row) neighbors q_pts"

definition add_kernel_points :: "point list list \<Rightarrow> point list \<Rightarrow> error + point list list" where
  "add_kernel_points offsets kp = collect (\<lambda>row. broadcast2 padd row kp) offsets"

text \<open>
  The generated kernel points: every neighborhood is padded with points \<open>(-1, -1, -1)\<close>
  to the width \<^verbatim>\<open>layer_ind2neighbor[layer_ind]\<close>, flattened, mapped by the linear layer
  and viewed as points. A neighborhood wider than that width, no neighborhood at
  all, and an output width that is no multiple of 3 are errors of the tensor runtime.
\<close>

definition generate_kernel_points ::
  "kp_config \<Rightarrow> kp_params \<Rightarrow> point list list \<Rightarrow> error + point list list" where
  "generate_kernel_points cfg prm neighbors =
     (if layer_ind cfg < length (layer_ind2neighbor cfg)
      then (let width = layer_ind2neighbor cfg ! layer_ind cfg in
            if neighbors = [] then Inl RuntimeError
            else collect (\<lambda>row.
                   if length row \<le> width
                   then and_then
                          (apply_linear (kernel_points_generator prm)
                             (concat (map coords_of
                                (row @ replicate (width - length row) (- 1, - 1, - 1)))))
                          (\<lambda>out. if 3 dvd length out then Inr (map point_of (chunks 3 out))
                                  else Inl RuntimeError)
                   else Inl RuntimeError)
                 neighbors)
      else Inl (IndexError ListIndexOutOfRange))"

text \<open>
  The kernel positions the distances are taken to. With generated kernel points they
  replace the fixed or deformed ones. Without them a non-deformable operator uses
  its fixed kernel points for every query point. A deformable operator without
  generated kernel points (which the constructor never builds, as it sets
  \<^verbatim>\<open>generative_kernel_points = True\<close>) always fails: the two \<^verbatim>\<open>unsqueeze\<close> calls make
  the differences a tensor of six dimensions, and the later \<^verbatim>\<open>neighb_inds.gather\<close> of
  the two-dimensional table by an index of four dimensions raises; the model raises
  at this place, before \<^verbatim>\<open>min_d2\<close> is assigned.
\<close>

definition kernel_positions ::
  "kp_config \<Rightarrow> kp_params \<Rightarrow> point list list \<Rightarrow> error + point list list" where
  "kernel_positions cfg prm neighbors =
     (if generative_kernel_points cfg then generate_kernel_points cfg prm neighbors
      else if deformable cfg then Inl RuntimeError
      else Inr [kernel_points prm])"

definition square_distances ::
  "point list list \<Rightarrow> point list list \<Rightarrow> error + real list list list" where
  "square_distances neighbors deformed_K_points =
     broadcast2 (\<lambda>row kps. map (\<lambda>p. map (\<lambda>kp. sq_norm (psub p kp)) kps) row)
       neighbors deformed_K_points"

subsection \<open>Neighbors in range of a kernel point\<close>

text \<open>
  \<^verbatim>\<open>torch.min(sq_distances, dim=1)\<close>, which raises on a neighborhood of width 0;
  the 0/1 table \<^verbatim>\<open>in_range\<close>; \<^verbatim>\<open>new_max_neighb\<close>, the largest row sum, which raises
  when there is no row.
\<close>

definition min_over_neighbors :: "real list list list \<Rightarrow> error + matrix" where
  "min_over_neighbors sq =
     collect (\<lambda>row. if row = [] then Inl RuntimeError
                     else Inr (map (\<lambda>c. Min (set (map (\<lambda>ds. ds ! c) row)))
                                 [0..<length (hd row)])) sq"

definition in_range_row :: "real \<Rightarrow> matrix \<Rightarrow> int list" where
  "in_range_row extent row = map (\<lambda>ds. if list_ex (\<lambda>d. d < extent\<^sup>2) ds then 1 else 0) row"

definition new_max_neighb :: "int list list \<Rightarrow> error + nat" where
  "new_max_neighb in_range =
     (if in_range = [] then Inl RuntimeError
      else Inr (nat (Max (set (map sum_list in_range)))))"

text \<open>
  \<^verbatim>\<open>torch.topk(v, m)\<close> on one row: the \<open>m\<close> largest values in descending order with
  their positions; it raises when the row has fewer than \<open>m\<close> entries. Which of
  several equal values are selected, and in which order equal values are listed, the
  tensor library leaves open: the positions come from a selection \<open>sel\<close>, a parameter
  of the model. \<open>topk_selection sel\<close> is what the library promises of it: \<open>m\<close> distinct
  positions of the row, the values at them in descending order, and no value left out
  that is larger than a selected one. \<open>topk_by_position\<close> is the selection that lists
  equal values by position.
\<close>

definition topk ::
  "(int list \<Rightarrow> nat \<Rightarrow> nat list) \<Rightarrow> int list \<Rightarrow> nat \<Rightarrow> error + (int list \<times> nat list)" where
  "topk sel v m =
     (if m \<le> length v
      then (let idx = sel v m in Inr (map (\<lambda>i. v ! i) idx, idx))
      else Inl RuntimeError)"

definition topk_selection :: "(int list \<Rightarrow> nat \<Rightarrow> nat list) \<Rightarrow> bool" where
  "topk_selection sel =
     (\<forall>v m. m \<le> length v \<longrightarrow>
        length (sel v m) = m \<and> distinct (sel v m)
        \<and> (\<forall>t\<in>set (sel v m). t < length v)
        \<and> sorted (map (\<lambda>t. - (v ! t)) (sel v m))
        \<and> (\<forall>t<length v. t \<notin> set (sel v m) \<longrightarrow> (\<forall>u\<in>set (sel v m). v ! t \<le> v ! u)))"

definition topk_by_position :: "int list \<Rightarrow> nat \<Rightarrow> nat list" where
  "topk_by_position v m = take m (sort_key (\<lambda>i. - (v ! i)) [0..<length v])"

text \<open>
  The re-packing of the neighbor table and of the distances. \<open>shape\<close> is the number
  of support points after the shadow point was appended, so that \<open>shape - 1\<close> is the
  index of the shadow point. A kept slot (flag 1) keeps its neighbor index, a
  discarded one (flag 0) gets the shadow index, by the arithmetic of the source. The
  two \<^verbatim>\<open>gather\<close> calls raise when the table of positions has more rows than the
  gathered tensor, when a position lies outside a row, and when a neighbor has fewer
  than \<open>k\<close> kernel distances.
\<close>

definition repack_row :: "int \<Rightarrow> int list \<Rightarrow> int list \<times> nat list \<Rightarrow> int list" where
  "repack_row shadow inds_row chosen =
     (case chosen of (neighb_row_bool, neighb_row_inds) \<Rightarrow>
        map2 (\<lambda>i b. i * b - (b - 1) * shadow)
          (map (\<lambda>t. inds_row ! t) neighb_row_inds) neighb_row_bool)"

definition positions_outside :: "'a list list \<Rightarrow> (int list \<times> nat list) list \<Rightarrow> bool" where
  "positions_outside rows chosen =
     list_ex (\<lambda>(row, c). list_ex (\<lambda>t. length row \<le> t) (snd c)) (zip rows chosen)"

definition repack_neighbors ::
  "(int list \<Rightarrow> nat \<Rightarrow> nat list) \<Rightarrow> nat \<Rightarrow> nat \<Rightarrow> real \<Rightarrow> table \<Rightarrow> real list list list
     \<Rightarrow> error + (table \<times> real list list list)" where
  "repack_neighbors sel k shape extent neighb_inds sq =
     (let in_range = map (in_range_row extent) sq in
      and_then (new_max_neighb in_range) (\<lambda>m.
      and_then (collect (\<lambda>r. topk sel r m) in_range) (\<lambda>chosen.
        if length neighb_inds < length chosen
           \<or> positions_outside neighb_inds chosen
           \<or> positions_outside sq chosen
           \<or> list_ex (list_ex (\<lambda>ds. length ds < k)) sq
        then Inl RuntimeError
        else Inr (map2 (repack_row (int shape - 1)) neighb_inds chosen,
                  map2 (\<lambda>row c. map (\<lambda>t. take k (row ! t)) (snd c)) sq chosen))))"

subsection \<open>Influences and aggregation\<close>

text \<open>
  The influence weights \<^verbatim>\<open>all_weights\<close>, transposed to one row per kernel point. With
  the linear influence and an extent of zero the source divides by zero: for a
  positive distance the quotient is \<^verbatim>\<open>inf\<close> and \<^verbatim>\<open>clamp(1 - inf, min=0.0)\<close> is 0; for
  the distance 0 the quotient is \<^verbatim>\<open>nan\<close>, and so is the weight. No exception is
  raised and the computation goes on. The model takes 0 for both, and
  \<open>undefined_influence\<close> tells that a weight is \<^verbatim>\<open>nan\<close>.
\<close>

definition kernel_influences ::
  "kp_config \<Rightarrow> nat \<Rightarrow> real list list list \<Rightarrow> error + real list list list" where
  "kernel_influences cfg nk sq =
     (if KP_influence cfg = ''constant''
      then Inr (map (columns nk) (map (map (map (\<lambda>_. 1))) sq))
      else if KP_influence cfg = ''linear''
      then Inr (map (columns nk)
                  (map (map (map (\<lambda>d. if KP_extent cfg = 0 then 0
                                       else influence_linear (KP_extent cfg) d))) sq))
      else if KP_influence cfg = ''gaussian''
      then Inr (map (columns nk) (map (map (map (influence_gaussian (KP_extent cfg)))) sq))
      else Inl (ValueError ''Unknown influence function type (config.KP_influence)''))"

definition undefined_influence :: "kp_config \<Rightarrow> real list list list \<Rightarrow> bool" where
  "undefined_influence cfg sq =
     (KP_influence cfg = ''linear'' \<and> KP_extent cfg = 0
      \<and> list_ex (list_ex (list_ex (\<lambda>d. d = 0))) sq)"

text \<open>
  \<^verbatim>\<open>torch.argmin\<close> over the kernel points (the first position of the least value) and
  the in-place product with the transposed one-hot table, which needs \<open>K\<close> rows of
  weights, or \<open>K = 1\<close>.
\<close>

definition argmin :: "real list \<Rightarrow> nat" where
  "argmin ds = hd (filter (\<lambda>i. ds ! i = Min (set ds)) [0..<length ds])"

definition closest_only ::
  "nat \<Rightarrow> real list list list \<Rightarrow> real list list list \<Rightarrow> error + real list list list" where
  "closest_only k sq all_weights =
     (if list_ex (list_ex (\<lambda>ds. ds = [] \<or> k \<le> argmin ds)) sq
         \<or> length sq \<noteq> length all_weights
      then Inl RuntimeError
      else collect (\<lambda>(row, w).
             if length w = k
             then Inr (map2 (\<lambda>kp wrow. map2 (\<lambda>ds v. v * (if argmin ds = kp then 1 else 0)) row wrow)
                         [0..<k] w)
             else if k = 1 then Inr w
             else Inl RuntimeError)
           (zip sq all_weights))"

definition aggregate ::
  "kp_config \<Rightarrow> real list list list \<Rightarrow> real list list list \<Rightarrow> error + real list list list" where
  "aggregate cfg sq all_weights =
     (if aggregation_mode cfg = ''closest'' then closest_only (K cfg) sq all_weights
      else if aggregation_mode cfg \<noteq> ''sum''
      then Inl (ValueError ''Unknown convolution mode. Should be 'closest' or 'sum' '')
      else Inr all_weights)"

subsection \<open>Weighted features and output\<close>

text \<open>
  Matrix products and contractions of the tensor runtime, with their shape checks.
  The repetition of a dimension of size 1 inside \<^verbatim>\<open>einsum\<close> and \<^verbatim>\<open>matmul\<close> is not
  modelled: sizes that differ are a shape error here.
\<close>

definition matmul :: "nat \<Rightarrow> matrix \<Rightarrow> matrix \<Rightarrow> error + matrix" where
  "matmul w a b =
     (if list_all (\<lambda>r. length r = length b) a \<and> list_all (\<lambda>r. length r = w) b
      then Inr (map (\<lambda>r. map (\<lambda>c. sum_list (map2 (*) r (map (\<lambda>row. row ! c) b))) [0..<w]) a)
      else Inl RuntimeError)"

definition inplace2 :: "('a \<Rightarrow> 'b \<Rightarrow> 'c) \<Rightarrow> 'a list \<Rightarrow> 'b list \<Rightarrow> error + 'c list" where
  "inplace2 f xs ys =
     (if length xs = length ys then Inr (map2 f xs ys)
      else if length ys = 1 then Inr (map (\<lambda>x. f x (hd ys)) xs)
      else Inl RuntimeError)"

definition weighted_features ::
  "matrix \<Rightarrow> real list list list \<Rightarrow> real list list list \<Rightarrow> error + real list list list" where
  "weighted_features x' all_weights neighb_x =
     (if length all_weights = length neighb_x
      then collect (\<lambda>(a, b). matmul (length (hd x')) a b) (zip all_weights neighb_x)
      else Inl RuntimeError)"

definition apply_modulations ::
  "real list list list \<Rightarrow> matrix \<Rightarrow> error + real list list list" where
  "apply_modulations wfeat modulations =
     and_then (inplace2 (\<lambda>m mods. inplace2 (\<lambda>row s. map (\<lambda>v. v * s) row) m mods) wfeat modulations)
       (collect (\<lambda>r. r))"

text \<open>
  \<^verbatim>\<open>einsum('nmi,nmio->nmo', weighted_features, kernel)\<close> followed by the sum over the
  kernel points, for one query point; and \<^verbatim>\<open>t.view(N, -1, cin, cout)\<close> of the sampled
  tensor field.
\<close>

definition contract :: "nat \<Rightarrow> matrix \<Rightarrow> matrix list \<Rightarrow> error + vec" where
  "contract cout wfeat kern =
     (if length wfeat = length kern
         \<and> list_all2 (\<lambda>w k. length w = length k \<and> list_all (\<lambda>r. length r = cout) k) wfeat kern
      then Inr (map (\<lambda>out. sum_list (map2 (\<lambda>w k. sum_list (map2 (\<lambda>wi kr. wi * kr ! out) w k)) wfeat kern))
                  [0..<cout])
      else Inl RuntimeError)"

definition view_kernels :: "nat \<Rightarrow> nat \<Rightarrow> nat \<Rightarrow> matrix \<Rightarrow> error + matrix list list" where
  "view_kernels n cin cout field =
     (let flat = concat field in
      if n * cin * cout = 0 \<or> \<not> (n * cin * cout) dvd length flat then Inl RuntimeError
      else Inr (map (\<lambda>piece. map (chunks cout) (chunks (cin * cout) piece))
                  (chunks (length flat div n) flat)))"

definition conv_output ::
  "kp_config \<Rightarrow> kp_params \<Rightarrow> point list list \<Rightarrow> point list \<Rightarrow> real list list list
     \<Rightarrow> error + matrix" where
  "conv_output cfg prm deformed_K_points q_pts wfeat =
     (if conv_method cfg = ''Triplanes''
      then and_then
             (broadcast2 (\<lambda>kps q. map (\<lambda>kp. psub kp q) kps) deformed_K_points q_pts)
             (\<lambda>relative_coord.
              and_then (tensor_field (no_mlp cfg) (nei_plane prm) (mlp_map prm) relative_coord)
             (\<lambda>field.
              and_then (view_kernels (length relative_coord) (in_channels cfg) (out_channels cfg)
                          field)
             (\<lambda>kernel.
                if length wfeat = length kernel
                then collect (\<lambda>(w, k). contract (out_channels cfg) w k) (zip wfeat kernel)
                else Inl RuntimeError)))
      else collect (\<lambda>w. contract (out_channels cfg) w (weights prm)) wfeat)"

subsection \<open>The forward pass\<close>

text \<open>
  The part of \<^verbatim>\<open>KPConv.forward\<close> after the neighbors are re-packed: influences,
  aggregation mode, the features of the neighbors (with the zero row for the shadow
  index), the weighted features, the modulations and the output. Every step that can
  raise is run, whatever the weights are; an output computed from a \<^verbatim>\<open>nan\<close> weight is
  no matrix of numbers, and \<open>NonFinite\<close> stands for it.
\<close>

definition finish_convolution ::
  "kp_config \<Rightarrow> kp_params \<Rightarrow> matrix option \<Rightarrow> point list \<Rightarrow> matrix \<Rightarrow> point list list
     \<Rightarrow> nat \<Rightarrow> real list list list \<Rightarrow> table \<Rightarrow> error + matrix" where
  "finish_convolution cfg prm modulations q_pts x deformed_K_points nk sq new_neighb_inds =
     and_then (kernel_influences cfg nk sq) (\<lambda>all_weights.
     and_then (aggregate cfg sq all_weights) (\<lambda>all_weights.
       let x' = x @ zeros_like_first x in
       and_then (gather2 x' new_neighb_inds 2) (\<lambda>neighb_x.
       and_then (weighted_features x' all_weights neighb_x) (\<lambda>wfeat.
       and_then (if deformable cfg \<and> modulated cfg
                 then (case modulations of
                         None \<Rightarrow> Inl AttributeError
                       | Some m \<Rightarrow> apply_modulations wfeat m)
                 else Inr wfeat) (\<lambda>wfeat.
       and_then (conv_output cfg prm deformed_K_points q_pts wfeat) (\<lambda>out.
         if undefined_influence cfg sq then Inl NonFinite else Inr out))))))"

text \<open>
  The part of \<^verbatim>\<open>KPConv.forward\<close> under "Deformed convolution". It returns the scratch
  attributes as they stand when the call returns or raises, the lines printed, and the
  output or the error.
\<close>

definition deformed_convolution ::
  "(int list \<Rightarrow> nat \<Rightarrow> nat list) \<Rightarrow> kp_config \<Rightarrow> kp_params \<Rightarrow> kp_scratch \<Rightarrow> point list list option \<Rightarrow> matrix option
     \<Rightarrow> point list \<Rightarrow> point list \<Rightarrow> table \<Rightarrow> matrix
     \<Rightarrow> kp_scratch \<times> message list \<times> (error + matrix)" where
  "deformed_convolution sel cfg prm scr offsets modulations q_pts s_pts neighb_inds x =
     (let s' = add_shadow_point s_pts; shape = length s' in
      case table_max neighb_inds of
        Inl e \<Rightarrow> (scr, [], Inl e)
      | Inr mx \<Rightarrow>
         (let printed = wrong_dim mx shape in
          case and_then (index_rows2 s' neighb_inds) (\<lambda>nb. center_neighborhoods nb q_pts) of
            Inl e \<Rightarrow> (scr, printed, Inl e)
          | Inr neighbors \<Rightarrow>
             (case (if deformable cfg
                    then (case offsets of
                            None \<Rightarrow> Inl TypeError
                          | Some off \<Rightarrow>
                              and_then (add_kernel_points off (kernel_points prm))
                                (\<lambda>d. Inr (Some d)))
                    else Inr None) of
                Inl e \<Rightarrow> (scr, printed, Inl e)
              | Inr dk \<Rightarrow>
                 (let scr1 = (case dk of None \<Rightarrow> scr | Some d \<Rightarrow> scr\<lparr>deformed_KP := Some d\<rparr>) in
                  case and_then (kernel_positions cfg prm neighbors)
                         (\<lambda>kp. and_then (square_distances neighbors kp) (\<lambda>sq. Inr (kp, sq))) of
                    Inl e \<Rightarrow> (scr1, printed, Inl e)
                  | Inr (kp, sq) \<Rightarrow>
                     (if deformable cfg
                      then (case min_over_neighbors sq of
                              Inl e \<Rightarrow> (scr1, printed, Inl e)
                            | Inr md \<Rightarrow>
                               (scr1\<lparr>min_d2 := Some md\<rparr>, printed,
                                and_then
                                  (repack_neighbors sel (K cfg) shape (KP_extent cfg) neighb_inds sq)
                                  (\<lambda>(new_neighb_inds, sq').
                                     finish_convolution cfg prm modulations q_pts x kp (K cfg)
                                       sq' new_neighb_inds)))
                      else (scr1, printed,
                            finish_convolution cfg prm modulations q_pts x kp (length (hd kp))
                              sq neighb_inds))))))"

text \<open>
  \<^verbatim>\<open>KPConv.forward(q_pts, s_pts, neighb_inds, x)\<close>: the offset generation by the
  sub-operator, then the deformed convolution. \<open>sel\<close> is the selection of
  \<^verbatim>\<open>torch.topk\<close>. The result is the operator after the call, the lines printed, and
  the output or the error raised.
\<close>

fun KPConv_forward ::
  "(int list \<Rightarrow> nat \<Rightarrow> nat list) \<Rightarrow> kpconv \<Rightarrow> point list \<Rightarrow> point list \<Rightarrow> table \<Rightarrow> matrix
     \<Rightarrow> kpconv \<times> message list \<times> (error + matrix)" where
  "KPConv_forward sel (KPConv cfg prm scr sub) q_pts s_pts neighb_inds x =
     (if deformable cfg
      then (case sub of
              None \<Rightarrow> (KPConv cfg prm scr sub, [], Inl TypeError)
            | Some oc \<Rightarrow>
               (case KPConv_forward sel oc q_pts s_pts neighb_inds x of
                  (oc', printed1, r) \<Rightarrow>
                   (case and_then r (\<lambda>y. case offset_bias prm of
                                           None \<Rightarrow> Inl TypeError
                                         | Some b \<Rightarrow> add_bias y b) of
                      Inl e \<Rightarrow> (KPConv cfg prm scr (Some oc'), printed1, Inl e)
                    | Inr feats \<Rightarrow>
                       (let scr0 = scr\<lparr>offset_features := Some feats\<rparr> in
                        case split_offsets cfg feats of
                          Inl e \<Rightarrow> (KPConv cfg prm scr0 (Some oc'), printed1, Inl e)
                        | Inr (offsets, modulations) \<Rightarrow>
                           (case deformed_convolution sel cfg prm scr0 (Some offsets) modulations
                                   q_pts s_pts neighb_inds x of
                              (scr', printed2, r') \<Rightarrow>
                                (KPConv cfg prm scr' (Some oc'), printed1 @ printed2, r'))))))
      else (case deformed_convolution sel cfg prm scr None None q_pts s_pts neighb_inds x of
              (scr', printed, r) \<Rightarrow> (KPConv cfg prm scr' sub, printed, r)))"

text \<open>
  For the statement of the in-range filtering: \<open>in_range_count\<close> is the number of
  neighbors of one query point that lie within the extent of at least one kernel
  point, \<open>max_in_range\<close> the largest such number over the query points of the batch,
  \<open>in_range_neighbors\<close> the indices of those neighbors in a row of the neighbor table.
\<close>

definition in_range_count :: "real \<Rightarrow> matrix \<Rightarrow> nat" where
  "in_range_count extent row = length (filter (\<lambda>ds. list_ex (\<lambda>d. d < extent\<^sup>2) ds) row)"

definition max_in_range :: "real \<Rightarrow> real list list list \<Rightarrow> nat" where
  "max_in_range extent sq = Max (set (map (in_range_count extent) sq))"


definition in_range_neighbors :: "real \<Rightarrow> int list \<Rightarrow> matrix \<Rightarrow> int list" where
  "in_range_neighbors extent inds_row sq_row =
     map fst (filter (\<lambda>(i, ds). list_ex (\<lambda>d. d < extent\<^sup>2) ds) (zip inds_row sq_row))"
section \<open>The tri-plane convolution operator\<close>

text \<open>
  The attributes \<^verbatim>\<open>TriplaneConv.__init__\<close> sets: configuration and learned parameters.
  Attributes that share a name with one of \<^verbatim>\<open>KPConv\<close> carry the prefix \<open>tp_\<close>. The
  constructor takes \<^verbatim>\<open>aggregation_mode\<close> and stores nothing of it. \<^verbatim>\<open>forward\<close> assigns no
  attribute.
\<close>

record tp_config =
  calc_scores :: string
  padding_with_center :: bool
  tp_no_mlp :: bool
  tp_LoDs :: bool
  k_cin :: bool
  depth_wise :: bool
  with_trick :: bool
  precompute_indices :: bool
  tp_method :: string
  tp_baseGridSize :: nat
  tp_n_comp :: nat
  tp_neiGridSize :: nat
  tp_m :: nat
  tp_cin :: nat
  tp_cout :: nat

record tp_params =
  tp_nei_plane :: "plane list"
  tp_mlp_map :: "matrix \<Rightarrow> error + matrix"
  linear_layer :: nn_linear
  scorenet :: "point list list \<Rightarrow> error + real list list list"
  tp_matrice :: matrix

record triplaneconv =
  tp_conf :: tp_config
  tp_par :: tp_params

definition TriplaneConv_init ::
  "initializers \<Rightarrow> nat \<Rightarrow> nat \<Rightarrow> nat \<Rightarrow> nat \<Rightarrow> nat \<Rightarrow> string \<Rightarrow> triplaneconv" where
  "TriplaneConv_init env kernel_size pd in_chan out_chan li aggregation =
     (let lods = True; trick = False; meth = ''Triplane''; base = 128; ncomp = 8; mm = 8;
          grid = (if lods then base div 2 ^ li else base)
      in \<lparr> tp_conf =
             \<lparr> calc_scores = ''softmax'', padding_with_center = False, tp_no_mlp = False,
               tp_LoDs = lods, k_cin = False, depth_wise = False, with_trick = trick,
               precompute_indices = False, tp_method = meth, tp_baseGridSize = base,
               tp_n_comp = ncomp, tp_neiGridSize = grid, tp_m = mm, tp_cin = in_chan,
               tp_cout = out_chan \<rparr>,
           tp_par =
             \<lparr> tp_nei_plane = init_one_svd env ncomp grid (1 / 10),
               tp_mlp_map = (if trick then new_Mlps env (3 * ncomp) [in_chan]
                             else new_Mlps env (3 * ncomp) [in_chan * out_chan]),
               linear_layer = new_Linear env in_chan out_chan,
               scorenet = new_ScoreNet env 6 mm [16],
               tp_matrice = kaiming_normal env mm in_chan out_chan \<rparr> \<rparr>)"

subsection \<open>The three convolutions\<close>

text \<open>
  \<^verbatim>\<open>TriplaneConv.tensor_field\<close>: as the tensor field of \<^verbatim>\<open>KPConv\<close>, but it returns
  \<^verbatim>\<open>None\<close> for a method other than \<^verbatim>\<open>'Triplane'\<close>, on which the caller's \<^verbatim>\<open>.view\<close> raises.
\<close>

definition tp_tensor_field :: "tp_config \<Rightarrow> tp_params \<Rightarrow> point list list \<Rightarrow> error + matrix" where
  "tp_tensor_field cfg prm xyz =
     (let xyz_nei = concat xyz; n = length xyz_nei in
      and_then (sample_planes (tp_nei_plane prm) xyz_nei) (\<lambda>nei_plane_coef_point.
      and_then (if tp_no_mlp cfg then sum_stack nei_plane_coef_point
                else if nei_plane_coef_point = [] then Inl RuntimeError
                else Inr (concat nei_plane_coef_point)) (\<lambda>coef.
        if tp_method cfg = ''Triplane''
        then (if tp_no_mlp cfg then Inr (columns n coef) else tp_mlp_map prm (columns n coef))
        else Inl AttributeError)))"

text \<open>
  \<^verbatim>\<open>t.view(N, k, -1)\<close> and \<^verbatim>\<open>t.view(N, k, cin, cout)\<close> of a matrix, by its flat list of
  entries.
\<close>

definition view_nk :: "nat \<Rightarrow> nat \<Rightarrow> matrix \<Rightarrow> error + real list list list" where
  "view_nk n k field =
     (let flat = concat field; w = length flat div (n * k) in
      if n * k = 0 \<or> \<not> (n * k) dvd length flat then Inl RuntimeError
      else Inr (map (\<lambda>i. map (\<lambda>j. take w (drop ((i * k + j) * w) flat)) [0..<k]) [0..<n]))"

definition view_nkio :: "nat \<Rightarrow> nat \<Rightarrow> nat \<Rightarrow> nat \<Rightarrow> matrix \<Rightarrow> error + matrix list list" where
  "view_nkio n k ci co field =
     (let flat = concat field in
      if length flat \<noteq> n * k * ci * co then Inl RuntimeError
      else Inr (map (\<lambda>i. map (\<lambda>j. map (\<lambda>c. take co (drop (((i * k + j) * ci + c) * co) flat))
                                      [0..<ci])
                             [0..<k])
                  [0..<n]))"

text \<open>
  \<^verbatim>\<open>einsum('nki,ni->ni', filter, x)\<close>: for every query point and channel, the sum over
  the neighbors of the product of the filter entry and the feature entry.
\<close>

definition einsum_nki_ni :: "real list list list \<Rightarrow> matrix \<Rightarrow> error + matrix" where
  "einsum_nki_ni filt x =
     (if length filt = length x
         \<and> list_all2 (\<lambda>f row. list_all (\<lambda>r. length r = length row) f) filt x
      then Inr (map2 (\<lambda>f row. map (\<lambda>i. sum_list (map (\<lambda>r. r ! i * row ! i) f))
                                  [0..<length row]) filt x)
      else Inl RuntimeError)"

definition depth_wise_conv ::
  "tp_config \<Rightarrow> tp_params \<Rightarrow> matrix \<Rightarrow> table \<Rightarrow> point list list \<Rightarrow> error + matrix" where
  "depth_wise_conv cfg prm x neighb_inds xyz =
     (let n = length xyz; k = length (hd xyz) in
      and_then (first_column neighb_inds) (\<lambda>c.
      and_then (index_rows x c) (\<lambda>x1.
      and_then (tp_tensor_field cfg prm xyz) (\<lambda>field.
      and_then (view_nk n k field) (\<lambda>filt.
      and_then (einsum_nki_ni filt x1) (\<lambda>y.
        collect (apply_linear (linear_layer prm)) y))))))"

text \<open>
  \<^verbatim>\<open>feat_trans_pointnet\<close> of \<^verbatim>\<open>utils/TriplaneConv_util\<close> is not part of the sources here:
  it is a parameter, from the features, the weight bank and \<open>m\<close> to one \<open>m \<times> cout\<close>
  matrix per feature row.
\<close>

definition einsum_nmo_nkm :: "nat \<Rightarrow> matrix list \<Rightarrow> real list list list \<Rightarrow> error + matrix" where
  "einsum_nmo_nkm co xs score =
     (if length xs = length score
         \<and> list_all2 (\<lambda>xm sc. list_all (\<lambda>r. length r = length xm) sc
                                \<and> list_all (\<lambda>r. length r = co) xm) xs score
      then Inr (map2 (\<lambda>xm sc. map (\<lambda>out. sum_list (map (\<lambda>r. sum_list (map2 (\<lambda>xr s. xr ! out * s) xm r)) sc))
                                   [0..<co]) xs score)
      else Inl RuntimeError)"

definition einsum_nkmo_nkm ::
  "nat \<Rightarrow> matrix list list \<Rightarrow> real list list list \<Rightarrow> error + matrix" where
  "einsum_nkmo_nkm co xs score =
     (if length xs = length score
         \<and> list_all2 (\<lambda>xk sc. length xk = length sc
                \<and> list_all2 (\<lambda>xm r. length xm = length r \<and> list_all (\<lambda>v. length v = co) xm) xk sc)
              xs score
      then Inr (map2 (\<lambda>xk sc. map (\<lambda>out. sum_list (map2 (\<lambda>xm r. sum_list (map2 (\<lambda>xr s. xr ! out * s) xm r)) xk sc))
                                   [0..<co]) xs score)
      else Inl RuntimeError)"

definition conv_with_trick ::
  "(matrix \<Rightarrow> matrix \<Rightarrow> nat \<Rightarrow> error + matrix list) \<Rightarrow> tp_config \<Rightarrow> tp_params \<Rightarrow> matrix
     \<Rightarrow> table \<Rightarrow> point list list \<Rightarrow> error + matrix" where
  "conv_with_trick feat_trans_pointnet cfg prm x neighb_inds xyz =
     (let n = length xyz; k = length (hd xyz) in
      and_then (if tp_method cfg = ''ScoreNet'' then scorenet prm xyz
                else and_then (tp_tensor_field cfg prm xyz) (view_nk n k)) (\<lambda>score.
        if k_cin cfg
        then and_then (index_rows2 x neighb_inds) (\<lambda>xk.
             and_then (if list_all (list_all (\<lambda>r. length r = tp_cin cfg)) xk \<and> 0 < tp_cin cfg
                       then feat_trans_pointnet (concat xk) (tp_matrice prm) (tp_m cfg)
                       else Inl RuntimeError) (\<lambda>t.
               if n * k = 0 \<or> length t \<noteq> n * k then Inl RuntimeError
               else einsum_nkmo_nkm (length (hd (hd t))) (chunks k t) score))
        else and_then (feat_trans_pointnet x (tp_matrice prm) (tp_m cfg)) (\<lambda>t.
             and_then (first_column neighb_inds) (\<lambda>c.
             and_then (index_rows t c) (\<lambda>xm.
               if n * tp_m cfg = 0 \<or> list_ex (\<lambda>mt. length mt \<noteq> tp_m cfg) xm
                  \<or> length xm \<noteq> n
               then Inl RuntimeError
               else einsum_nmo_nkm (length (hd (hd xm))) xm score)))))"

definition direct_conv ::
  "tp_config \<Rightarrow> tp_params \<Rightarrow> matrix \<Rightarrow> table \<Rightarrow> point list list \<Rightarrow> error + matrix" where
  "direct_conv cfg prm x neighb_inds xyz =
     (let n = length xyz; k = length (hd xyz) in
      and_then (index_rows2 x neighb_inds) (\<lambda>xk.
        if tp_method cfg = ''ScoreNet''
        then and_then (scorenet prm xyz) (\<lambda>score. Inl NameError)
        else and_then (tp_tensor_field cfg prm xyz) (\<lambda>field.
             and_then (view_nkio n k (tp_cin cfg) (tp_cout cfg) field) (\<lambda>kernel.
               if length xk = length kernel
               then collect (\<lambda>(xr, kr). contract (tp_cout cfg) xr kr) (zip xk kernel)
               else Inl RuntimeError))))"

subsection \<open>The forward pass\<close>

text \<open>
  \<^verbatim>\<open>TriplaneConv.forward(q_pts, s_pts, neighb_inds, neighb_r, x)\<close>. It prints nothing
  and assigns no attribute: the operator is returned as it was, with no message. The
  shadow point and the zero feature row are appended, the neighbors are read by plain
  indexing, centred on the query points and divided by the radius.
\<close>

definition normalized_offsets ::
  "point list \<Rightarrow> point list \<Rightarrow> table \<Rightarrow> real \<Rightarrow> error + point list list" where
  "normalized_offsets q_pts s_pts neighb_inds neighb_r =
     and_then (index_rows2 (add_shadow_point s_pts) neighb_inds) (\<lambda>nb.
     and_then (center_neighborhoods nb q_pts) (\<lambda>xyz.
       if neighb_r = 0 then Inl NonFinite
       else Inr (map (map (pscale (1 / neighb_r))) xyz)))"

definition TriplaneConv_forward ::
  "(matrix \<Rightarrow> matrix \<Rightarrow> nat \<Rightarrow> error + matrix list) \<Rightarrow> triplaneconv \<Rightarrow> point list \<Rightarrow> point list
     \<Rightarrow> table \<Rightarrow> real \<Rightarrow> matrix \<Rightarrow> triplaneconv \<times> message list \<times> (error + matrix)" where
  "TriplaneConv_forward feat_trans_pointnet tp q_pts s_pts neighb_inds neighb_r x =
     (tp, [],
      and_then (normalized_offsets q_pts s_pts neighb_inds neighb_r) (\<lambda>xyz.
        let x' = x @ zeros_like_first x in
        if depth_wise (tp_conf tp) then depth_wise_conv (tp_conf tp) (tp_par tp) x' neighb_inds xyz
        else if with_trick (tp_conf tp)
        then conv_with_trick feat_trans_pointnet (tp_conf tp) (tp_par tp) x' neighb_inds xyz
        else direct_conv (tp_conf tp) (tp_par tp) x' neighb_inds xyz))"

section \<open>The block factory\<close>

text \<open>
  \<^verbatim>\<open>block_decider\<close> selects the block class from the block name and calls its
  constructor. A value of \<open>block\<close> is that constructor call with its arguments; of the
  configuration the factory itself reads \<^verbatim>\<open>use_batch_norm\<close> and \<^verbatim>\<open>batch_norm_momentum\<close>
  and hands the whole configuration on.
\<close>

record net_config =
  use_batch_norm :: bool
  batch_norm_momentum :: real

datatype 'c block =
    UnaryBlock nat nat bool real
  | SimpleBlock string nat nat real nat 'c
  | ResnetBottleneckBlock string nat nat real nat 'c
  | MaxPoolBlock nat
  | GlobalAverageBlock
  | NearestUpsampleBlock nat

definition simple_names :: "string list" where
  "simple_names =
     [''simple'', ''simple_deformable'', ''simple_invariant'', ''simple_equivariant'',
      ''simple_strided'', ''simple_deformable_strided'', ''simple_invariant_strided'',
      ''simple_equivariant_strided'']"

definition resnetb_names :: "string list" where
  "resnetb_names =
     [''resnetb'', ''resnetb_invariant'', ''resnetb_equivariant'', ''resnetb_deformable'',
      ''resnetb_strided'', ''resnetb_deformable_strided'', ''resnetb_equivariant_strided'',
      ''resnetb_invariant_strided'']"

definition block_decider ::
  "string \<Rightarrow> real \<Rightarrow> nat \<Rightarrow> nat \<Rightarrow> nat \<Rightarrow> 'a net_config_scheme
     \<Rightarrow> error + ('a net_config_scheme) block" where
  "block_decider block_name rad in_dim out_dim li conf =
     (if block_name = ''unary''
      then Inr (UnaryBlock in_dim out_dim (use_batch_norm conf) (batch_norm_momentum conf))
      else if block_name \<in> set simple_names
      then Inr (SimpleBlock block_name in_dim out_dim rad li conf)
      else if block_name \<in> set resnetb_names
      then Inr (ResnetBottleneckBlock block_name in_dim out_dim rad li conf)
      else if block_name = ''max_pool'' \<or> block_name = ''max_pool_wide''
      then Inr (MaxPoolBlock li)
      else if block_name = ''global_average''
      then Inr GlobalAverageBlock
      else if block_name = ''nearest_upsample''
      then Inr (NearestUpsampleBlock li)
      else Inl (ValueError (''Unknown block name in the architecture definition : '' @ block_name)))"

definition recognized_block_names :: "string list" where
  "recognized_block_names =
     ''unary'' # simple_names @ resnetb_names
       @ [''max_pool'', ''max_pool_wide'', ''global_average'', ''nearest_upsample'']"

section \<open>A small environment for concrete runs\<close>

text \<open>
  Fixed values for the parts the model takes as parameters, used where a statement is
  checked on a concrete input: linear layers with unit weights, an \<^verbatim>\<open>Mlps\<close> that
  repeats the sum of its input row, unit draws and a layout of kernel points at the
  origin.
\<close>

definition demo_env :: initializers where
  "demo_env =
     \<lparr> new_Linear = (\<lambda>i out. \<lparr> weight = replicate out (replicate i 1), bias = replicate out 0 \<rparr>),
       new_Mlps = (\<lambda>i outs mat. Inr (map (\<lambda>row. replicate (last outs) (sum_list row)) mat)),
       new_ScoreNet = (\<lambda>i mm hidden xyz. Inr (map (map (\<lambda>p. replicate mm 0)) xyz)),
       randn = (\<lambda>i c r w. 1),
       kaiming_normal = (\<lambda>mm ci co. replicate ci (replicate (mm * co) 1)),
       kaiming_uniform = (\<lambda>k ci co. replicate k (replicate ci (replicate co 1))),
       load_kernels = (\<lambda>r k d fixed. replicate k (0, 0, 0)) \<rparr>"

definition demo_feat_trans :: "matrix \<Rightarrow> matrix \<Rightarrow> nat \<Rightarrow> error + matrix list" where
  "demo_feat_trans x kern mm = Inr (map (\<lambda>row. replicate mm []) x)"

section \<open>The learned parameters of an operator\<close>

text \<open>
  The learned parameters of a kernel-point operator: its own and, for a deformable
  operator, those of its offset sub-operator.
\<close>

fun all_params :: "kpconv \<Rightarrow> kp_params list" where
  "all_params (KPConv cfg prm scr sub) =
     prm # (case sub of None \<Rightarrow> [] | Some oc \<Rightarrow> all_params oc)"

section \<open>The depth-wise convolution in the words of the specification\<close>

text \<open>
  The specification's depth-wise mode: a per-channel multiplicative filter sampled
  from the tensor field (for a query point, the sum over its neighbors of the rows
  \<open>filt\<close> sampled at their normalized offsets), applied element-wise to the feature row
  of the nearest neighbor, then the learned linear mixing.
\<close>

definition sum_over_neighbors :: "nat \<Rightarrow> matrix \<Rightarrow> vec" where
  "sum_over_neighbors w f = map (\<lambda>i. sum_list (map (\<lambda>r. r ! i) f)) [0..<w]"

definition depth_wise_spec :: "nn_linear \<Rightarrow> real list list list \<Rightarrow> matrix \<Rightarrow> matrix" where
  "depth_wise_spec lin filt nearest =
     map2 (\<lambda>f row. linear_map lin (map2 (*) (sum_over_neighbors (length row) f) row))
       filt nearest"

text \<open>
  An operator is complete when every deformable operator in it has its offset
  sub-operator, as the constructor builds it.
\<close>

fun complete :: "kpconv \<Rightarrow> bool" where
  "complete (KPConv cfg prm scr sub) =
     (case sub of None \<Rightarrow> \<not> deformable cfg | Some oc \<Rightarrow> complete oc)"

definition demo_triplane :: triplaneconv where
  "demo_triplane = TriplaneConv_init demo_env 15 3 1 1 7 ''sum''"

definition demo_bogus :: triplaneconv where
  "demo_bogus = TriplaneConv_init demo_env 15 3 1 1 7 ''bogus''"

definition demo_depth_wise :: triplaneconv where
  "demo_depth_wise = demo_triplane \<lparr> tp_conf := (tp_conf demo_triplane) \<lparr> depth_wise := True \<rparr> \<rparr>"

section \<open>Recognized configuration values\<close>

definition influence_kinds :: "string list" where
  "influence_kinds = [''constant'', ''linear'', ''gaussian'']"

definition aggregation_modes :: "string list" where
  "aggregation_modes = [''closest'', ''sum'']"

text \<open>A result is genuine when it is not the marker of a division by zero.\<close>

definition genuine :: "error + 'a \<Rightarrow> bool" where
  "genuine r = (r \<noteq> Inl NonFinite)"

section \<open>Auxiliary facts\<close>

lemma collect_Inr:
  "(\<And>x. x \<in> set xs \<Longrightarrow> f x = Inr (g x)) \<Longrightarrow> collect f xs = Inr (map g xs)"
  by (induction xs) (simp_all add: and_then_def)

section \<open>Properties of the pooling primitives\<close>

lemma torch_gather_Inr:
  "torch_gather x idx = Inr out \<Longrightarrow>
     length out = length idx \<and> (\<forall>r < length idx. out ! r = x ! nat (idx ! r))"
  by (auto simp: torch_gather_def split: if_splits)

text \<open>
  Claim C8. \<open>closest_pool\<close> reads the neighbor table through its first column only:
  two tables with the same first column give the same result (the same rows, or the
  same error); a result has one row per table row, and that row is the row of \<open>x\<close>,
  extended by the zero shadow row, at the first-column index; and a result exists
  whenever every first-column index lies between 0 and the number of rows of \<open>x\<close>.
\<close>

theorem closest_pool_first_column_only:
  "(first_column inds1 = Inr c \<and> first_column inds2 = Inr c
      \<longrightarrow> closest_pool x inds1 = closest_pool x inds2)
   \<and> (closest_pool x inds1 = Inr out
      \<longrightarrow> length out = length inds1
          \<and> (\<forall>r < length inds1.
                out ! r = (x @ zeros_like_first x) ! nat (hd (inds1 ! r))))
   \<and> (x \<noteq> [] \<and> list_all (\<lambda>r. r \<noteq> [] \<and> 0 \<le> hd r \<and> hd r \<le> int (length x)) inds1
      \<longrightarrow> (\<exists>res. closest_pool x inds1 = Inr res))"
proof -
  have same: "closest_pool x inds1 = closest_pool x inds2"
    if "first_column inds1 = Inr c \<and> first_column inds2 = Inr c"
    using that by (simp add: closest_pool_def)
  have rows: "length out = length inds1
          \<and> (\<forall>r < length inds1.
                out ! r = (x @ zeros_like_first x) ! nat (hd (inds1 ! r)))"
    if a: "closest_pool x inds1 = Inr out"
  proof -
    from a obtain c' where c: "first_column inds1 = Inr c'"
      and g: "torch_gather (x @ zeros_like_first x) c' = Inr out"
      by (auto simp: closest_pool_def gather_def Let_def split: sum.splits)
    from c have cm: "c' = map hd inds1"
      by (auto simp: first_column_def split: if_splits)
    from torch_gather_Inr [OF g] cm show ?thesis by simp
  qed
  have total: "\<exists>res. closest_pool x inds1 = Inr res"
    if a: "x \<noteq> [] \<and> list_all (\<lambda>r. r \<noteq> [] \<and> 0 \<le> hd r \<and> hd r \<le> int (length x)) inds1"
  proof -
    from a have ne: "list_all (\<lambda>r. r \<noteq> []) inds1"
      by (simp add: list_all_iff)
    from a have len: "length (x @ zeros_like_first x) = Suc (length x)"
      by (cases x) (simp_all add: zeros_like_first_def)
    from a have "list_all (gather_ok (Suc (length x))) (map hd inds1)"
      by (auto simp: list_all_iff gather_ok_def)
    with ne len show ?thesis
      by (simp add: closest_pool_def first_column_def gather_def torch_gather_def Let_def)
  qed
  from same rows total show ?thesis by blast
qed

theorem closest_pool_first_column_only_witness:
  "closest_pool [[1, 2], [3, 4]] [[1, 0], [2, 0]] = closest_pool [[1, 2], [3, 4]] [[1, 2], [2, 1]]
   \<and> closest_pool [[1, 2], [3, 4]] [[1, 0], [2, 0]] = Inr [[3, 4], [0, 0]]"
proof -
  have fc: "first_column [[1, 0], [2, 0]] = Inr [1, 2] \<and> first_column [[1, 2], [2, 1]] = Inr [1, 2]"
    by (simp add: first_column_def)
  have ev: "closest_pool [[1, 2], [3, 4]] [[1, 0], [2, 0]] = Inr [[3, 4], [0, 0]]"
    by (simp add: closest_pool_def first_column_def gather_def torch_gather_def
        gather_ok_def zeros_like_first_def)
  from closest_pool_first_column_only
    [of "[[1, 0], [2, 0]]" "[1, 2]" "[[1, 2], [2, 1]]" "[[1, 2], [3, 4]]" "[[3, 4], [0, 0]]"]
    fc ev
  show ?thesis by blast
qed

section \<open>Properties of the influence functions\<close>












section \<open>Properties of the tensor-field sampling\<close>

lemma half_double_cancel: "d \<noteq> 0 \<Longrightarrow> (2 * a / d) / 2 * d = (a::real)"
  by (simp add: field_simps)

lemma unnormalize_node_aligned:
  "2 \<le> n \<Longrightarrow> unnormalize n (node_aligned n i) = real i"
proof -
  assume "2 \<le> n"
  then have nz: "real n - 1 \<noteq> 0" by simp
  have "unnormalize n (node_aligned n i) = (2 * real i / (real n - 1)) / 2 * (real n - 1)"
    by (simp add: unnormalize_def node_aligned_def)
  also have "\<dots> = real i"
    using nz by (rule half_double_cancel)
  finally show ?thesis .
qed

lemma grid_sample_point_node:
  assumes H: "2 \<le> length img" and W: "2 \<le> W"
    and rect: "list_all (\<lambda>row. length row = W) img"
    and i: "i < W" and j: "j < length img"
  shows "grid_sample_point img (node_aligned W i, node_aligned (length img) j) = img ! j ! i"
proof -
  from H have ne: "img \<noteq> []" by auto
  with rect have hd: "length (hd img) = W"
    by (cases img) simp_all
  from rect j have row: "length (img ! j) = W"
    by (simp add: list_all_length)
  have px: "pixel img (int j) (int i) = img ! j ! i"
    using i j row by (simp add: pixel_def)
  show ?thesis
    using px
    by (simp add: grid_sample_point_def hd unnormalize_node_aligned [OF W]
        unnormalize_node_aligned [OF H] Let_def)
qed

lemma grid_sample_point_unit_corner: "grid_sample_point [[1, 2], [3, 4]] (node_unit 2 0, node_unit 2 0) = 5 / 2"
  by (simp add: grid_sample_point_def node_unit_def unnormalize_def pixel_def Let_def)

lemma grid_sample_Inr:
  assumes "2 \<le> G" and "plane_ok G pl"
  shows "grid_sample pl grid = Inr (map (\<lambda>img. map (grid_sample_point img) grid) pl)"
proof -
  have "\<not> list_ex (\<lambda>img. img = [] \<or> hd img = []) pl"
  proof
    assume "list_ex (\<lambda>img. img = [] \<or> hd img = []) pl"
    then obtain img where m: "img \<in> set pl" and e: "img = [] \<or> hd img = []"
      by (auto simp: list_ex_iff)
    from m assms(2) have l: "length img = G" and r: "list_all (\<lambda>row. length row = G) img"
      by (auto simp: plane_ok_def list_all_iff)
    from l assms(1) have ne: "img \<noteq> []" by auto
    with r have "length (hd img) = G" by (cases img) simp_all
    with assms(1) have "hd img \<noteq> []" by auto
    with ne e show False by simp
  qed
  then show ?thesis by (simp add: grid_sample_def)
qed

lemma sample_planes_Inr:
  assumes G: "2 \<le> G" and len: "length planes = 3"
    and ok: "list_all (plane_ok G) planes" and ne: "xyz_nei \<noteq> []"
  shows "sample_planes planes xyz_nei =
     Inr (map (\<lambda>idx. map (\<lambda>img. map (grid_sample_point img) (nei_coordinate_plane xyz_nei ! idx))
                       (planes ! idx)) [0..<3])"
proof -
  have l3: "length (nei_coordinate_plane xyz_nei) = 3"
    by (simp add: nei_coordinate_plane_def matMode_def)
  have "collect (\<lambda>idx_plane.
        if idx_plane < length (nei_coordinate_plane xyz_nei)
        then (if xyz_nei = [] then Inl RuntimeError
              else grid_sample (planes ! idx_plane) (nei_coordinate_plane xyz_nei ! idx_plane))
        else Inl (IndexError (OutOfBounds (int idx_plane)
                                (length (nei_coordinate_plane xyz_nei))))) [0..<3]
     = Inr (map (\<lambda>idx. map (\<lambda>img. map (grid_sample_point img) (nei_coordinate_plane xyz_nei ! idx))
                       (planes ! idx)) [0..<3])"
  proof (rule collect_Inr)
    fix x assume "x \<in> set [0..<3]"
    then have x: "x < 3" by simp
    with ok len have "plane_ok G (planes ! x)"
      by (simp add: list_all_length)
    from grid_sample_Inr [OF G this] x l3 ne
    show "(if x < length (nei_coordinate_plane xyz_nei)
        then (if xyz_nei = [] then Inl RuntimeError
              else grid_sample (planes ! x) (nei_coordinate_plane xyz_nei ! x))
        else Inl (IndexError (OutOfBounds (int x) (length (nei_coordinate_plane xyz_nei)))))
       = Inr (map (\<lambda>img. map (grid_sample_point img) (nei_coordinate_plane xyz_nei ! x))
                       (planes ! x))"
      by simp
  qed
  then show ?thesis by (simp add: sample_planes_def len)
qed

text \<open>
  Claim C5, as amended. With three factor planes of \<open>G \<times> G\<close> images, \<open>G \<ge> 2\<close>, and a
  point whose coordinate pair for plane \<open>idx\<close> is the node \<open>(i, j)\<close> in the aligned-corners
  convention of \<^verbatim>\<open>grid_sample\<close> (coordinates in \<open>[-1, 1]\<close>, the first coordinate of the
  pair running along the width), the sampling succeeds and the sample of every
  channel \<open>c\<close> of that plane is exactly the stored value at row \<open>j\<close>, column \<open>i\<close>.
  Stated for real numbers.
\<close>

theorem tensor_field_sampling_at_grid_node:
  assumes G: "2 \<le> G" and len: "length planes = 3"
    and ok: "list_all (plane_ok G) planes" and ne: "xyz_nei \<noteq> []"
    and idx: "idx < 3" and c: "c < length (planes ! idx)" and n: "n < length xyz_nei"
    and i: "i < G" and j: "j < G"
    and at: "nei_coordinate_plane xyz_nei ! idx ! n = (node_aligned G i, node_aligned G j)"
  shows "\<exists>samples. sample_planes planes xyz_nei = Inr samples
           \<and> samples ! idx ! c ! n = planes ! idx ! c ! j ! i"
proof -
  let ?img = "planes ! idx ! c"
  from ok len idx have pk: "plane_ok G (planes ! idx)"
    by (simp add: list_all_length)
  with c have H: "length ?img = G" and rect: "list_all (\<lambda>row. length row = G) ?img"
    by (simp_all add: plane_ok_def list_all_length)
  have ln: "length (nei_coordinate_plane xyz_nei ! idx) = length xyz_nei"
    using idx by (auto simp: nei_coordinate_plane_def matMode_def nth_Cons' split: if_splits)
  have "grid_sample_point ?img (node_aligned G i, node_aligned (length ?img) j) = ?img ! j ! i"
    using G rect i j H by (intro grid_sample_point_node) simp_all
  with H at have v: "grid_sample_point ?img (nei_coordinate_plane xyz_nei ! idx ! n) = ?img ! j ! i"
    by simp
  have "map (\<lambda>idx. map (\<lambda>img. map (grid_sample_point img) (nei_coordinate_plane xyz_nei ! idx))
                       (planes ! idx)) [0..<3] ! idx ! c ! n = ?img ! j ! i"
    using idx c n ln v by simp
  with sample_planes_Inr [OF G len ok ne] show ?thesis by blast
qed

theorem tensor_field_sampling_at_grid_node_witness:
  "\<exists>samples. sample_planes [demo_plane, demo_plane, demo_plane] [(1, - 1, 1)] = Inr samples
           \<and> samples ! 0 ! 0 ! 0 = [demo_plane, demo_plane, demo_plane] ! 0 ! 0 ! 0 ! 1"
  using tensor_field_sampling_at_grid_node
    [of 2 "[demo_plane, demo_plane, demo_plane]" "[(1, - 1, 1)]" 0 0 0 1 0]
  by (simp add: plane_ok_def demo_plane_def nei_coordinate_plane_def matMode_def coord_def
      coords_of_def node_aligned_def)

text \<open>
  In the \<open>[0, 1]\<close> convention the specification names, the node \<open>(0, 0)\<close> of a
  \<open>2 \<times> 2\<close> plane has the coordinates \<open>(0, 0)\<close>, which \<^verbatim>\<open>grid_sample\<close> reads as the centre
  of the plane: the sample is the mean \<open>5 / 2\<close> of the four values, not the stored \<open>1\<close>.
\<close>

theorem tensor_field_unit_corner_counterexample:
  "\<not> (\<exists>samples. sample_planes [demo_plane, demo_plane, demo_plane]
           [(node_unit 2 0, node_unit 2 0, node_unit 2 0)] = Inr samples
         \<and> samples ! 0 ! 0 ! 0 = [demo_plane, demo_plane, demo_plane] ! 0 ! 0 ! 0 ! 0)"
proof -
  have "sample_planes [demo_plane, demo_plane, demo_plane]
           [(node_unit 2 0, node_unit 2 0, node_unit 2 0)] = Inr [[[5 / 2]], [[5 / 2]], [[5 / 2]]]"
    by (simp add: sample_planes_def nei_coordinate_plane_def matMode_def coord_def coords_of_def
        upt_rec grid_sample_def demo_plane_def and_then_def grid_sample_point_unit_corner)
  then show ?thesis by (simp add: demo_plane_def)
qed

section \<open>Properties of the construction\<close>

lemma KPConv_attributes_Inr:
  "KPConv_attributes env ks pd cin cout extent rad li fixed infl aggr deform modul sub = Inr op
   \<Longrightarrow> K (config op) = 10
       \<and> kernel_points (params op) = load_kernels env rad 10 pd fixed
       \<and> length (weights (params op)) = length (kaiming_uniform env 10 cin cout)"
  by (auto simp: KPConv_attributes_def Let_def split: if_splits)

text \<open>
  Claim C7. The constructor does not use its argument \<open>kernel_size\<close>: whatever its
  value, a constructed operator has \<open>K = 10\<close> kernel points, and the layout provider is
  asked for 10 offsets. The constructor succeeds for every layer index below 5.
\<close>

theorem KPConv_init_ignores_kernel_size:
  "(li < 5 \<longrightarrow>
      (\<exists>op. KPConv_init env env_offset kernel_size pd cin cout extent rad li fixed infl aggr
               deform modul = Inr op))
   \<and> (KPConv_init env env_offset kernel_size pd cin cout extent rad li fixed infl aggr
         deform modul = Inr op
       \<longrightarrow> K (config op) = 10
           \<and> kernel_points (params op) = load_kernels env rad 10 pd fixed)"
proof -
  have a: "\<exists>op. KPConv_init env env_offset kernel_size pd cin cout extent rad li fixed infl aggr
               deform modul = Inr op" if "li < 5"
    using that by (simp add: KPConv_init_def KPConv_attributes_def and_then_def Let_def)
  have b: "K (config op) = 10 \<and> kernel_points (params op) = load_kernels env rad 10 pd fixed"
    if "KPConv_init env env_offset kernel_size pd cin cout extent rad li fixed infl aggr
         deform modul = Inr op"
    using that KPConv_attributes_Inr
    by (auto simp: KPConv_init_def and_then_def split: if_splits sum.splits)
  from a b show ?thesis by blast
qed

theorem KPConv_init_ignores_kernel_size_witness:
  "\<exists>op. KPConv_init demo_env demo_env 15 3 1 1 1 1 0 ''center'' ''linear'' ''sum'' False False
           = Inr op
        \<and> K (config op) = 10"
  using KPConv_init_ignores_kernel_size
    [of 0 demo_env demo_env 15 3 1 1 1 1 "''center''" "''linear''" "''sum''" False False]
  by auto

section \<open>The forward pass and the learned parameters\<close>

lemma KPConv_forward_all_params:
  "all_params (fst (KPConv_forward sel op q_pts s_pts neighb_inds x)) = all_params op"
proof (induction sel op q_pts s_pts neighb_inds x rule: KPConv_forward.induct)
  case (1 sel cfg prm scr sub q_pts s_pts neighb_inds x)
  show ?case
  proof (cases "deformable cfg")
    case False
    then show ?thesis
      by (simp split: prod.splits)
  next
    case True
    show ?thesis
    proof (cases sub)
      case None
      with True show ?thesis by simp
    next
      case (Some oc)
      obtain oc' printed1 r where f: "KPConv_forward sel oc q_pts s_pts neighb_inds x = (oc', printed1, r)"
        by (cases "KPConv_forward sel oc q_pts s_pts neighb_inds x") auto
      from "1.IH" [OF True Some] f have ih: "all_params oc' = all_params oc"
        by simp
      from True Some f ih show ?thesis
        by (simp split: sum.splits prod.splits add: Let_def)
    qed
  qed
qed

text \<open>
  Claim C9. A forward pass of a kernel-point operator returns the operator with the
  learned parameters it had, its own and those of its offset sub-operator, and with
  its configuration; it assigns the scratch attributes only. A forward pass of a
  tri-plane operator returns the operator as it was.
\<close>

theorem forward_keeps_learned_parameters:
  "all_params (fst (KPConv_forward sel op q_pts s_pts neighb_inds x)) = all_params op
   \<and> config (fst (KPConv_forward sel op q_pts s_pts neighb_inds x)) = config op
   \<and> fst (TriplaneConv_forward feat_trans tp q_pts s_pts neighb_inds neighb_r x) = tp"
proof -
  have "config (fst (KPConv_forward sel op q_pts s_pts neighb_inds x)) = config op"
    by (cases op) (simp split: sum.splits prod.splits option.splits add: Let_def)
  then show ?thesis
    by (simp add: KPConv_forward_all_params TriplaneConv_forward_def)
qed

theorem forward_keeps_learned_parameters_witness:
  "all_params (fst (KPConv_forward topk_by_position
       (projr (KPConv_init demo_env demo_env 15 3 1 1 1 1 0 ''center'' ''constant'' ''sum''
                 True False))
       [(0, 0, 0)] [(0, 0, 0)] [[0]] [[1]]))
     = all_params
         (projr (KPConv_init demo_env demo_env 15 3 1 1 1 1 0 ''center'' ''constant'' ''sum''
                   True False))
   \<and> config (fst (KPConv_forward topk_by_position
       (projr (KPConv_init demo_env demo_env 15 3 1 1 1 1 0 ''center'' ''constant'' ''sum''
                 True False))
       [(0, 0, 0)] [(0, 0, 0)] [[0]] [[1]]))
     = config
         (projr (KPConv_init demo_env demo_env 15 3 1 1 1 1 0 ''center'' ''constant'' ''sum''
                   True False))
   \<and> fst (TriplaneConv_forward demo_feat_trans demo_triplane
            [(0, 0, 0)] [(0, 0, 0)] [[0]] 1 [[1]]) = demo_triplane"
  by (rule forward_keeps_learned_parameters)

section \<open>Neighbor indices out of bounds\<close>

lemma out_of_range_index_rows2:
  assumes "list_ex (list_ex (\<lambda>i. int (length s) \<le> i)) idx"
  shows "\<exists>i. i \<in> set (concat idx) \<and> \<not> index_ok (length s) i
     \<and> index_rows2 s idx = Inl (IndexError (OutOfBounds i (length s)))"
proof -
  from assms obtain j where j: "j \<in> set (concat idx)" and ge: "int (length s) \<le> j"
    by (auto simp: list_ex_iff)
  from ge have "\<not> index_ok (length s) j" by (simp add: index_ok_def)
  with j have "find (\<lambda>i. \<not> index_ok (length s) i) (concat idx) \<noteq> None"
    by (auto simp: find_None_iff)
  then obtain i where f: "find (\<lambda>i. \<not> index_ok (length s) i) (concat idx) = Some i"
    by auto
  then have "i \<in> set (concat idx)" and "\<not> index_ok (length s) i"
    by (auto simp only: find_Some_iff nth_mem)
  with f show ?thesis
    by (auto simp: index_rows2_def)
qed

lemma table_max_ge:
  assumes "list_ex (list_ex (\<lambda>i. int n \<le> i)) inds"
  shows "\<exists>mx. table_max inds = Inr mx \<and> int n \<le> mx \<and> mx = Max (set (concat inds))"
proof -
  from assms obtain i where i: "i \<in> set (concat inds)" and ge: "int n \<le> i"
    by (auto simp: list_ex_iff)
  from i have ne: "concat inds \<noteq> []" by (cases "concat inds") simp_all
  from i have "i \<le> Max (set (concat inds))" by simp
  with ge ne show ?thesis by (simp add: table_max_def)
qed

lemma TriplaneConv_forward_index_error:
  assumes "index_rows2 (add_shadow_point s_pts) neighb_inds = Inl e"
  shows "snd (TriplaneConv_forward feat_trans tp q_pts s_pts neighb_inds neighb_r x)
     = ([], Inl e)"
  using assms
  by (simp add: TriplaneConv_forward_def normalized_offsets_def and_then_def)

lemma deformed_convolution_reports:
  assumes "list_ex (list_ex (\<lambda>i. int (length (add_shadow_point s_pts)) \<le> i)) neighb_inds"
    and "index_rows2 (add_shadow_point s_pts) neighb_inds = Inl e"
  shows "snd (deformed_convolution sel cfg prm scr offsets modulations q_pts s_pts neighb_inds x)
     = ([WrongDim (Max (set (concat neighb_inds))) (length (add_shadow_point s_pts))], Inl e)"
  using table_max_ge [OF assms(1)] assms(2)
  by (auto simp: deformed_convolution_def Let_def wrong_dim_def and_then_def)

lemma KPConv_forward_reports_out_of_bounds:
  assumes "list_ex (list_ex (\<lambda>i. int (length (add_shadow_point s_pts)) \<le> i)) neighb_inds"
    and "index_rows2 (add_shadow_point s_pts) neighb_inds = Inl e"
    and "complete op"
  shows "WrongDim (Max (set (concat neighb_inds))) (length (add_shadow_point s_pts))
           \<in> set (fst (snd (KPConv_forward sel op q_pts s_pts neighb_inds x)))
         \<and> snd (snd (KPConv_forward sel op q_pts s_pts neighb_inds x)) = Inl e"
  using assms(3) assms(1) assms(2)
proof (induction sel op q_pts s_pts neighb_inds x rule: KPConv_forward.induct)
  case (1 sel cfg prm scr sub q_pts s_pts neighb_inds x)
  note oob = "1.prems"(2) and err = "1.prems"(3)
  show ?case
  proof (cases "deformable cfg")
    case False
    obtain scr' printed r where d:
      "deformed_convolution sel cfg prm scr None None q_pts s_pts neighb_inds x
         = (scr', printed, r)"
      by (cases "deformed_convolution sel cfg prm scr None None q_pts s_pts neighb_inds x") auto
    from deformed_convolution_reports [OF oob err, of sel cfg prm scr None None q_pts x,
        unfolded d]
    have "(printed, r) = ([WrongDim (Max (set (concat neighb_inds)))
             (length (add_shadow_point s_pts))], Inl e)"
      by simp
    then have "printed = [WrongDim (Max (set (concat neighb_inds)))
             (length (add_shadow_point s_pts))]" and "r = Inl e"
      by simp_all
    with False d show ?thesis by simp
  next
    case True
    with "1.prems"(1) obtain oc where sub: "sub = Some oc" and c: "complete oc"
      by (cases sub) simp_all
    obtain oc' printed1 r where f:
      "KPConv_forward sel oc q_pts s_pts neighb_inds x = (oc', printed1, r)"
      by (cases "KPConv_forward sel oc q_pts s_pts neighb_inds x") auto
    from "1.IH" [OF True sub c oob err] f
    have "WrongDim (Max (set (concat neighb_inds))) (length (add_shadow_point s_pts))
            \<in> set printed1"
      and "r = Inl e" by simp_all
    with True sub f show ?thesis
      by (simp add: and_then_def)
  qed
qed

text \<open>
  Claim C2. When the neighbor table holds an index beyond the padded support points
  (the support points with the shadow point appended), the forward pass of either
  operator ends in the \<^verbatim>\<open>IndexError\<close> of the indexing \<^verbatim>\<open>s_pts[neighb_inds, :]\<close>, whose
  message names an index \<open>i\<close> of the table that is out of bounds and the padded number
  of support points: the index is checked against the bounds, the call gives no
  output, and no index is clamped or wrapped to a valid one. The tri-plane operator
  prints nothing before; the kernel-point operator (with its offset sub-operator,
  when deformable) also prints the line with the largest index of the table and the
  padded number of support points.
\<close>

theorem out_of_bounds_index_is_reported:
  "list_ex (list_ex (\<lambda>i. int (length (add_shadow_point s_pts)) \<le> i)) neighb_inds \<longrightarrow>
     (\<exists>i. i \<in> set (concat neighb_inds) \<and> \<not> index_ok (length (add_shadow_point s_pts)) i
        \<and> snd (TriplaneConv_forward feat_trans tp q_pts s_pts neighb_inds neighb_r x)
            = ([], Inl (IndexError (OutOfBounds i (length (add_shadow_point s_pts)))))
        \<and> (complete op \<longrightarrow>
             snd (snd (KPConv_forward sel op q_pts s_pts neighb_inds x))
               = Inl (IndexError (OutOfBounds i (length (add_shadow_point s_pts))))
             \<and> WrongDim (Max (set (concat neighb_inds))) (length (add_shadow_point s_pts))
                 \<in> set (fst (snd (KPConv_forward sel op q_pts s_pts neighb_inds x)))))"
proof (intro impI)
  assume oob: "list_ex (list_ex (\<lambda>i. int (length (add_shadow_point s_pts)) \<le> i)) neighb_inds"
  from out_of_range_index_rows2 [OF oob] obtain i where
    i: "i \<in> set (concat neighb_inds)" and bad: "\<not> index_ok (length (add_shadow_point s_pts)) i"
    and err: "index_rows2 (add_shadow_point s_pts) neighb_inds
       = Inl (IndexError (OutOfBounds i (length (add_shadow_point s_pts))))"
    by blast
  have tp: "snd (TriplaneConv_forward feat_trans tp q_pts s_pts neighb_inds neighb_r x)
            = ([], Inl (IndexError (OutOfBounds i (length (add_shadow_point s_pts)))))"
    using err by (rule TriplaneConv_forward_index_error)
  have kp: "snd (snd (KPConv_forward sel op q_pts s_pts neighb_inds x))
               = Inl (IndexError (OutOfBounds i (length (add_shadow_point s_pts))))
             \<and> WrongDim (Max (set (concat neighb_inds))) (length (add_shadow_point s_pts))
                 \<in> set (fst (snd (KPConv_forward sel op q_pts s_pts neighb_inds x)))"
    if "complete op"
    using KPConv_forward_reports_out_of_bounds [OF oob err that, of sel q_pts x] by blast
  from i bad tp kp
  show "\<exists>i. i \<in> set (concat neighb_inds) \<and> \<not> index_ok (length (add_shadow_point s_pts)) i
        \<and> snd (TriplaneConv_forward feat_trans tp q_pts s_pts neighb_inds neighb_r x)
            = ([], Inl (IndexError (OutOfBounds i (length (add_shadow_point s_pts)))))
        \<and> (complete op \<longrightarrow>
             snd (snd (KPConv_forward sel op q_pts s_pts neighb_inds x))
               = Inl (IndexError (OutOfBounds i (length (add_shadow_point s_pts))))
             \<and> WrongDim (Max (set (concat neighb_inds))) (length (add_shadow_point s_pts))
                 \<in> set (fst (snd (KPConv_forward sel op q_pts s_pts neighb_inds x))))"
    by blast
qed

lemma demo_deformable_complete:
  "complete (projr (KPConv_init demo_env demo_env 15 3 1 1 1 1 0 ''center'' ''linear'' ''sum''
                      True False))"
  by (simp add: KPConv_init_def KPConv_attributes_def and_then_def Let_def)

theorem out_of_bounds_index_is_reported_witness:
  "snd (TriplaneConv_forward demo_feat_trans demo_triplane [(0, 0, 0)] [(0, 0, 0)] [[5]] 1 [[1]])
     = ([], Inl (IndexError (OutOfBounds 5 2)))
   \<and> snd (snd (KPConv_forward topk_by_position
        (projr (KPConv_init demo_env demo_env 15 3 1 1 1 1 0 ''center'' ''linear'' ''sum''
                  True False))
        [(0, 0, 0)] [(0, 0, 0)] [[5]] [[1]]))
       = Inl (IndexError (OutOfBounds 5 2))
   \<and> WrongDim 5 2 \<in> set (fst (snd (KPConv_forward topk_by_position
        (projr (KPConv_init demo_env demo_env 15 3 1 1 1 1 0 ''center'' ''linear'' ''sum''
                  True False))
        [(0, 0, 0)] [(0, 0, 0)] [[5]] [[1]])))"
proof -
  have l: "length (add_shadow_point [(0, 0, 0)]) = 2"
    by (simp add: add_shadow_point_def)
  have h: "list_ex (list_ex (\<lambda>i. int (length (add_shadow_point [(0, 0, 0)])) \<le> i)) [[5]]"
    by (simp add: l)
  from out_of_bounds_index_is_reported
    [of "[(0, 0, 0)]" "[[5]]" demo_feat_trans demo_triplane "[(0, 0, 0)]" 1 "[[1]]"
        "projr (KPConv_init demo_env demo_env 15 3 1 1 1 1 0 ''center'' ''linear'' ''sum''
                  True False)" topk_by_position]
    h demo_deformable_complete
  show ?thesis
    by (simp add: l)
qed
section \<open>The aggregation mode of the tri-plane operator\<close>

text \<open>
  Claim C10. Two tri-plane operators constructed with the same arguments and the
  same drawn values, but different \<open>aggregation_mode\<close> arguments, are the same operator,
  and their forward passes give the same result on every input.
\<close>

theorem TriplaneConv_ignores_aggregation_mode:
  "TriplaneConv_init env kernel_size pd in_chan out_chan li mode1
     = TriplaneConv_init env kernel_size pd in_chan out_chan li mode2
   \<and> TriplaneConv_forward feat_trans
        (TriplaneConv_init env kernel_size pd in_chan out_chan li mode1)
        q_pts s_pts neighb_inds neighb_r x
     = TriplaneConv_forward feat_trans
        (TriplaneConv_init env kernel_size pd in_chan out_chan li mode2)
        q_pts s_pts neighb_inds neighb_r x"
proof -
  have "TriplaneConv_init env kernel_size pd in_chan out_chan li mode1
     = TriplaneConv_init env kernel_size pd in_chan out_chan li mode2"
    by (simp add: TriplaneConv_init_def)
  then show ?thesis by simp
qed

theorem TriplaneConv_ignores_aggregation_mode_witness:
  "TriplaneConv_init demo_env 15 3 1 1 7 ''sum'' = TriplaneConv_init demo_env 15 3 1 1 7 ''closest''
   \<and> TriplaneConv_forward demo_feat_trans (TriplaneConv_init demo_env 15 3 1 1 7 ''sum'')
        [(0, 0, 0)] [(0, 0, 0)] [[0]] 1 [[1]]
     = TriplaneConv_forward demo_feat_trans (TriplaneConv_init demo_env 15 3 1 1 7 ''closest'')
        [(0, 0, 0)] [(0, 0, 0)] [[0]] 1 [[1]]"
  by (rule TriplaneConv_ignores_aggregation_mode)

section \<open>Unrecognized configuration values\<close>

lemma genuine_Inr [simp]: "genuine (Inr v)"
  by (simp add: genuine_def)

lemma genuine_Inl [simp]: "genuine (Inl e) = (e \<noteq> NonFinite)"
  by (simp add: genuine_def)

lemma genuine_and_then:
  "genuine m \<Longrightarrow> (\<And>v. genuine (f v)) \<Longrightarrow> genuine (and_then m f)"
  by (cases m) (simp_all add: and_then_def)

lemma genuine_collect:
  "(\<And>x. genuine (f x)) \<Longrightarrow> genuine (collect f xs)"
  by (induction xs) (simp_all add: genuine_and_then)

lemma genuine_broadcast2: "genuine (broadcast2 f xs ys)"
  by (simp add: broadcast2_def)

lemma genuine_table_max: "genuine (table_max inds)"
  by (simp add: table_max_def)

lemma genuine_index_rows2: "genuine (index_rows2 s idx)"
  by (simp add: index_rows2_def split: option.splits)

lemma genuine_apply_linear: "genuine (apply_linear l v)"
  by (simp add: apply_linear_def)

lemma genuine_neighbors:
  "genuine (and_then (index_rows2 s idx) (\<lambda>nb. center_neighborhoods nb q))"
  by (intro genuine_and_then genuine_index_rows2)
     (simp add: center_neighborhoods_def genuine_broadcast2)

lemma genuine_add_kernel_points: "genuine (add_kernel_points off kp)"
  unfolding add_kernel_points_def by (intro genuine_collect genuine_broadcast2)

lemma genuine_generate: "genuine (generate_kernel_points cfg prm neighbors)"
  unfolding generate_kernel_points_def Let_def
  by (auto intro!: genuine_collect genuine_and_then genuine_apply_linear)

lemma genuine_kernel_positions: "genuine (kernel_positions cfg prm neighbors)"
  by (simp add: kernel_positions_def genuine_generate)

lemma genuine_distances:
  "genuine (and_then (kernel_positions cfg prm neighbors)
     (\<lambda>kp. and_then (square_distances neighbors kp) (\<lambda>sq. Inr (kp, sq))))"
  by (intro genuine_and_then genuine_kernel_positions)
     (simp_all add: square_distances_def genuine_broadcast2)

lemma genuine_min_over_neighbors: "genuine (min_over_neighbors sq)"
  unfolding min_over_neighbors_def by (intro genuine_collect) simp

lemma genuine_topk: "genuine (topk sel v m)"
  by (simp add: topk_def Let_def)

lemma genuine_repack: "genuine (repack_neighbors sel k shape extent inds sq)"
  unfolding repack_neighbors_def Let_def
  by (intro genuine_and_then genuine_collect genuine_topk)
     (simp_all add: new_max_neighb_def)

lemma genuine_offsets:
  "genuine (if deformable cfg
            then (case offsets of
                    None \<Rightarrow> Inl TypeError
                  | Some off \<Rightarrow>
                      and_then (add_kernel_points off (kernel_points prm)) (\<lambda>d. Inr (Some d)))
            else Inr None)"
  by (auto split: option.splits intro!: genuine_and_then genuine_add_kernel_points)


lemma genuine_InlD: "genuine r \<Longrightarrow> r = Inl e \<Longrightarrow> e \<noteq> NonFinite"
  by (auto simp: genuine_def)

lemma deformed_convolution_result:
  "(\<exists>e. snd (snd (deformed_convolution sel cfg prm scr offsets modulations q_pts s_pts neighb_inds x))
           = Inl e \<and> e \<noteq> NonFinite)
   \<or> (\<exists>kp nk sq ni.
         snd (snd (deformed_convolution sel cfg prm scr offsets modulations q_pts s_pts neighb_inds x))
           = finish_convolution cfg prm modulations q_pts x kp nk sq ni)"
proof (cases "table_max neighb_inds")
  case (Inl e)
  with genuine_InlD [OF genuine_table_max Inl] show ?thesis
    by (simp add: deformed_convolution_def Let_def)
next
  case mx: (Inr mx)
  let ?nb = "and_then (index_rows2 (add_shadow_point s_pts) neighb_inds)
               (\<lambda>nb. center_neighborhoods nb q_pts)"
  show ?thesis
  proof (cases ?nb)
    case (Inl e)
    with genuine_InlD [OF genuine_neighbors Inl] mx show ?thesis
      by (simp add: deformed_convolution_def Let_def)
  next
    case nb: (Inr neighbors)
    let ?off = "if deformable cfg
            then (case offsets of
                    None \<Rightarrow> Inl TypeError
                  | Some off \<Rightarrow>
                      and_then (add_kernel_points off (kernel_points prm)) (\<lambda>d. Inr (Some d)))
            else Inr None"
    show ?thesis
    proof (cases ?off)
      case (Inl e)
      with genuine_InlD [OF genuine_offsets Inl] mx nb show ?thesis
        by (simp add: deformed_convolution_def Let_def)
    next
      case off: (Inr dk)
      let ?d = "and_then (kernel_positions cfg prm neighbors)
                  (\<lambda>kp. and_then (square_distances neighbors kp) (\<lambda>sq. Inr (kp, sq)))"
      show ?thesis
      proof (cases ?d)
        case (Inl e)
        with genuine_InlD [OF genuine_distances Inl] mx nb off show ?thesis
          by (simp add: deformed_convolution_def Let_def)
      next
        case (Inr pair)
        then obtain kp sq where d: "?d = Inr (kp, sq)" by (cases pair) simp
        show ?thesis
        proof (cases "deformable cfg")
          case False
          with mx nb off d have
            "snd (snd (deformed_convolution sel cfg prm scr offsets modulations q_pts s_pts neighb_inds x))
              = finish_convolution cfg prm modulations q_pts x kp (length (hd kp)) sq neighb_inds"
            by (simp add: deformed_convolution_def Let_def)
          then show ?thesis by blast
        next
          case True
          show ?thesis
          proof (cases "min_over_neighbors sq")
            case (Inl e)
            with genuine_InlD [OF genuine_min_over_neighbors Inl] mx nb off d True show ?thesis
              by (simp add: deformed_convolution_def Let_def)
          next
            case md: (Inr md)
            let ?rp = "repack_neighbors sel (K cfg) (length (add_shadow_point s_pts)) (KP_extent cfg)
                         neighb_inds sq"
            show ?thesis
            proof (cases ?rp)
              case (Inl e)
              with genuine_InlD [OF genuine_repack Inl] mx nb off d True md show ?thesis
                by (simp add: deformed_convolution_def Let_def and_then_def)
            next
              case (Inr pr)
              then obtain ni sq' where rp: "?rp = Inr (ni, sq')" by (cases pr) simp
              with mx nb off d True md have
                "snd (snd (deformed_convolution sel cfg prm scr offsets modulations q_pts s_pts
                             neighb_inds x))
                  = finish_convolution cfg prm modulations q_pts x kp (K cfg) sq' ni"
                by (simp add: deformed_convolution_def Let_def and_then_def)
              then show ?thesis by blast
            qed
          qed
        qed
      qed
    qed
  qed
qed

lemma finish_unknown_influence:
  assumes "KP_influence cfg \<notin> set influence_kinds"
  shows "finish_convolution cfg prm modulations q_pts x kp nk sq ni
     = Inl (ValueError ''Unknown influence function type (config.KP_influence)'')"
  using assms
  by (simp add: finish_convolution_def kernel_influences_def influence_kinds_def and_then_def)

lemma finish_unknown_aggregation:
  assumes "aggregation_mode cfg \<notin> set aggregation_modes"
  shows "\<exists>e. finish_convolution cfg prm modulations q_pts x kp nk sq ni = Inl e
     \<and> e \<noteq> NonFinite"
proof (cases "kernel_influences cfg nk sq")
  case (Inl e)
  then have "e \<noteq> NonFinite"
    by (auto simp: kernel_influences_def split: if_splits)
  with Inl show ?thesis
    by (simp add: finish_convolution_def and_then_def)
next
  case (Inr w)
  with assms show ?thesis
    by (simp add: finish_convolution_def and_then_def aggregate_def aggregation_modes_def)
qed

lemma deformed_convolution_unknown_mode:
  assumes "KP_influence cfg \<notin> set influence_kinds
     \<or> aggregation_mode cfg \<notin> set aggregation_modes"
  shows "\<exists>e. snd (snd (deformed_convolution sel cfg prm scr offsets modulations q_pts s_pts
                          neighb_inds x)) = Inl e \<and> e \<noteq> NonFinite"
proof -
  have fin: "\<exists>e. finish_convolution cfg prm modulations q_pts x kp nk sq ni = Inl e
     \<and> e \<noteq> NonFinite" for kp nk sq ni
    using assms finish_unknown_influence [of cfg prm modulations q_pts x kp nk sq ni]
      finish_unknown_aggregation [of cfg prm modulations q_pts x kp nk sq ni]
    by auto
  from deformed_convolution_result [of sel cfg prm scr offsets modulations q_pts s_pts neighb_inds x]
  show ?thesis
  proof
    assume "\<exists>e. snd (snd (deformed_convolution sel cfg prm scr offsets modulations q_pts s_pts
                neighb_inds x)) = Inl e \<and> e \<noteq> NonFinite"
    then show ?thesis .
  next
    assume "\<exists>kp nk sq ni.
         snd (snd (deformed_convolution sel cfg prm scr offsets modulations q_pts s_pts neighb_inds x))
           = finish_convolution cfg prm modulations q_pts x kp nk sq ni"
    then obtain kp nk sq ni where
      "snd (snd (deformed_convolution sel cfg prm scr offsets modulations q_pts s_pts neighb_inds x))
           = finish_convolution cfg prm modulations q_pts x kp nk sq ni"
      by blast
    with fin [of kp nk sq ni] show ?thesis by simp
  qed
qed

lemma KPConv_forward_plain:
  "\<not> deformable cfg \<Longrightarrow>
   snd (snd (KPConv_forward sel (KPConv cfg prm scr sub) q_pts s_pts neighb_inds x))
     = snd (snd (deformed_convolution sel cfg prm scr None None q_pts s_pts neighb_inds x))"
  by (simp split: prod.splits)

lemma KPConv_forward_inner_error:
  assumes "deformable cfg"
    and "snd (snd (KPConv_forward sel oc q_pts s_pts neighb_inds x)) = Inl e"
  shows "snd (snd (KPConv_forward sel (KPConv cfg prm scr (Some oc)) q_pts s_pts neighb_inds x))
     = Inl e"
proof -
  obtain oc' printed1 r where f: "KPConv_forward sel oc q_pts s_pts neighb_inds x = (oc', printed1, r)"
    by (cases "KPConv_forward sel oc q_pts s_pts neighb_inds x") auto
  with assms(2) have "r = Inl e" by simp
  with assms(1) f show ?thesis by (simp add: and_then_def)
qed

lemma KPConv_attributes_modes:
  assumes "KPConv_attributes env ks pd cin cout extent rad li fixed infl aggr deform modul sub
     = Inr op"
  shows "\<exists>cfg prm scr. op = KPConv cfg prm scr sub \<and> KP_influence cfg = infl
     \<and> aggregation_mode cfg = aggr \<and> KP_extent cfg = extent \<and> deformable cfg = deform"
  using assms by (auto simp: KPConv_attributes_def Let_def split: if_splits)

lemma constructed_unknown_mode:
  assumes init: "KPConv_init env env_offset kernel_size pd cin cout extent rad li fixed infl aggr
       deform modul = Inr op"
    and bad: "infl \<notin> set influence_kinds \<or> aggr \<notin> set aggregation_modes"
  shows "\<exists>e. snd (snd (KPConv_forward sel op q_pts s_pts neighb_inds x)) = Inl e \<and> e \<noteq> NonFinite"
proof (cases deform)
  case False
  with init have "KPConv_attributes env kernel_size pd cin cout extent rad li fixed infl aggr
       deform modul None = Inr op"
    by (simp add: KPConv_init_def)
  from KPConv_attributes_modes [OF this] False obtain cfg prm scr where
    op: "op = KPConv cfg prm scr None" and m: "KP_influence cfg = infl"
      "aggregation_mode cfg = aggr" "KP_extent cfg = extent" and nd: "\<not> deformable cfg"
    by auto
  from bad m have "KP_influence cfg \<notin> set influence_kinds
     \<or> aggregation_mode cfg \<notin> set aggregation_modes"
    by simp
  from deformed_convolution_unknown_mode [OF this, of sel prm scr None None q_pts s_pts neighb_inds x]
  show ?thesis
    by (simp only: op KPConv_forward_plain [OF nd])
next
  case True
  with init obtain oc where
    a1: "KPConv_attributes env_offset 10 pd cin (if modul then (pd + 1) * 10 else pd * 10)
                extent rad li fixed infl aggr False False None = Inr oc"
    and a2: "KPConv_attributes env kernel_size pd cin cout extent rad li fixed infl aggr
                deform modul (Some oc) = Inr op"
    by (auto simp: KPConv_init_def and_then_def split: sum.splits)
  from KPConv_attributes_modes [OF a1] obtain cfg' prm' scr' where
    oc: "oc = KPConv cfg' prm' scr' None" and m': "KP_influence cfg' = infl"
      "aggregation_mode cfg' = aggr" "KP_extent cfg' = extent" and nd: "\<not> deformable cfg'"
    by auto
  from KPConv_attributes_modes [OF a2] True obtain cfg prm scr where
    op: "op = KPConv cfg prm scr (Some oc)" and d: "deformable cfg"
    by auto
  from bad m' have "KP_influence cfg' \<notin> set influence_kinds
     \<or> aggregation_mode cfg' \<notin> set aggregation_modes"
    by simp
  from deformed_convolution_unknown_mode [OF this, of sel prm' scr' None None q_pts s_pts neighb_inds x]
  obtain e where e: "snd (snd (KPConv_forward sel oc q_pts s_pts neighb_inds x)) = Inl e"
    and g: "e \<noteq> NonFinite"
    by (auto simp only: oc KPConv_forward_plain [OF nd])
  from KPConv_forward_inner_error [OF d e] g show ?thesis
    by (simp only: op) blast
qed

lemma block_decider_unknown:
  assumes "block_name \<notin> set recognized_block_names"
  shows "block_decider block_name rad in_dim out_dim li conf
     = Inl (ValueError (''Unknown block name in the architecture definition : '' @ block_name))"
  using assms by (simp add: block_decider_def recognized_block_names_def)

text \<open>
  Claim C3, as amended. The constructor of the kernel-point operator validates
  neither the influence kind nor the aggregation mode: it succeeds for every layer
  index below 5. For an operator so constructed with an influence kind other than
  constant, linear and gaussian, or with an aggregation mode other than closest and
  sum, every forward pass ends in an exception and gives no output, whatever the
  extent and whatever the selection of \<^verbatim>\<open>torch.topk\<close>. For a block name outside the recognized ones the factory raises the
  \<open>ValueError\<close> and builds no block.
\<close>

theorem unknown_configuration_fails:
  "(li < 5 \<longrightarrow>
      (\<exists>op. KPConv_init env env_offset kernel_size pd cin cout extent rad li fixed infl aggr
               deform modul = Inr op))
   \<and> (KPConv_init env env_offset kernel_size pd cin cout extent rad li fixed infl aggr
         deform modul = Inr op
       \<and> (infl \<notin> set influence_kinds \<or> aggr \<notin> set aggregation_modes)
       \<longrightarrow> (\<exists>e. snd (snd (KPConv_forward sel op q_pts s_pts neighb_inds x)) = Inl e
                 \<and> e \<noteq> NonFinite))
   \<and> (block_name \<notin> set recognized_block_names
       \<longrightarrow> block_decider block_name rad' in_dim out_dim li' conf
             = Inl (ValueError
                 (''Unknown block name in the architecture definition : '' @ block_name)))"
proof -
  have a: "\<exists>op. KPConv_init env env_offset kernel_size pd cin cout extent rad li fixed infl aggr
               deform modul = Inr op" if "li < 5"
    using that by (simp add: KPConv_init_def KPConv_attributes_def and_then_def Let_def)
  have b: "\<exists>e. snd (snd (KPConv_forward sel op q_pts s_pts neighb_inds x)) = Inl e
                 \<and> e \<noteq> NonFinite"
    if "KPConv_init env env_offset kernel_size pd cin cout extent rad li fixed infl aggr
         deform modul = Inr op
       \<and> (infl \<notin> set influence_kinds \<or> aggr \<notin> set aggregation_modes)"
  proof -
    from that have i: "KPConv_init env env_offset kernel_size pd cin cout extent rad li fixed
         infl aggr deform modul = Inr op"
      and m: "infl \<notin> set influence_kinds \<or> aggr \<notin> set aggregation_modes"
      by blast+
    from i m show ?thesis by (rule constructed_unknown_mode)
  qed
  have c: "block_decider block_name rad' in_dim out_dim li' conf
             = Inl (ValueError
                 (''Unknown block name in the architecture definition : '' @ block_name))"
    if "block_name \<notin> set recognized_block_names"
    using that by (rule block_decider_unknown)
  from a b c show ?thesis
    by blast
qed

theorem unknown_configuration_fails_witness:
  "(\<exists>op. KPConv_init demo_env demo_env 15 3 1 1 1 1 0 ''center'' ''bogus'' ''sum'' False False
            = Inr op
         \<and> (\<exists>e. snd (snd (KPConv_forward topk_by_position op [(0, 0, 0)] [(0, 0, 0)] [[0]] [[1]]))
                  = Inl e
                \<and> e \<noteq> NonFinite))
   \<and> (\<exists>op. KPConv_init demo_env demo_env 15 3 1 1 0 1 0 ''center'' ''linear'' ''bogus'' True
              False = Inr op
         \<and> (\<exists>e. snd (snd (KPConv_forward topk_by_position op [(0, 0, 0)] [(0, 0, 0)] [[0]] [[1]]))
                  = Inl e
                \<and> e \<noteq> NonFinite))
   \<and> block_decider ''foo'' 1 1 1 0 \<lparr> use_batch_norm = True, batch_norm_momentum = 0 \<rparr>
       = Inl (ValueError (''Unknown block name in the architecture definition : '' @ ''foo''))"
proof -
  note t = unknown_configuration_fails
    [of 0 demo_env demo_env 15 3 1 1 1 1 "''center''" "''bogus''" "''sum''" False False _
        topk_by_position "[(0, 0, 0)]" "[(0, 0, 0)]" "[[0]]" "[[1]]" "''foo''" 1 1 1 0
        "\<lparr> use_batch_norm = True, batch_norm_momentum = 0 \<rparr>"]
  note u = unknown_configuration_fails
    [of 0 demo_env demo_env 15 3 1 1 0 1 "''center''" "''linear''" "''bogus''" True False _
        topk_by_position "[(0, 0, 0)]" "[(0, 0, 0)]" "[[0]]" "[[1]]" "''foo''" 1 1 1 0
        "\<lparr> use_batch_norm = True, batch_norm_momentum = 0 \<rparr>"]
  have i: "''bogus'' \<notin> set influence_kinds"
    by (simp add: influence_kinds_def)
  have a: "''bogus'' \<notin> set aggregation_modes"
    by (simp add: aggregation_modes_def)
  have n: "''foo'' \<notin> set recognized_block_names"
    by (simp add: recognized_block_names_def simple_names_def resnetb_names_def)
  from t obtain op where
    op: "KPConv_init demo_env demo_env 15 3 1 1 1 1 0 ''center'' ''bogus'' ''sum'' False False
            = Inr op"
    by auto
  from u obtain op' where
    op': "KPConv_init demo_env demo_env 15 3 1 1 0 1 0 ''center'' ''linear'' ''bogus'' True False
            = Inr op'"
    by auto
  from t [of op] op i n have first:
    "(\<exists>e. snd (snd (KPConv_forward topk_by_position op [(0, 0, 0)] [(0, 0, 0)] [[0]] [[1]]))
                  = Inl e \<and> e \<noteq> NonFinite)
     \<and> block_decider ''foo'' 1 1 1 0 \<lparr> use_batch_norm = True, batch_norm_momentum = 0 \<rparr>
       = Inl (ValueError (''Unknown block name in the architecture definition : '' @ ''foo''))"
    by blast
  from u [of op'] op' a have second:
    "\<exists>e. snd (snd (KPConv_forward topk_by_position op' [(0, 0, 0)] [(0, 0, 0)] [[0]] [[1]]))
                  = Inl e \<and> e \<noteq> NonFinite"
    by blast
  from op op' first second show ?thesis
    by blast
qed

text \<open>
  The tri-plane operator takes an aggregation mode and never looks at it: constructed
  with the unrecognized mode \<open>''bogus''\<close>, its forward pass returns an output.
\<close>

lemma demo_sample:
  "grid_sample_point [[1 / 10]] (0, 0) = 1 / 10"
  by (simp add: grid_sample_point_def unnormalize_def pixel_def Let_def)

lemma demo_planes:
  "tp_nei_plane (tp_par demo_bogus)
     = [[[[1 / 10]], [[1 / 10]], [[1 / 10]], [[1 / 10]], [[1 / 10]], [[1 / 10]], [[1 / 10]],
         [[1 / 10]]],
        [[[1 / 10]], [[1 / 10]], [[1 / 10]], [[1 / 10]], [[1 / 10]], [[1 / 10]], [[1 / 10]],
         [[1 / 10]]],
        [[[1 / 10]], [[1 / 10]], [[1 / 10]], [[1 / 10]], [[1 / 10]], [[1 / 10]], [[1 / 10]],
         [[1 / 10]]]]"
  by (simp add: demo_bogus_def TriplaneConv_init_def demo_env_def init_one_svd_def vecMode_def Let_def
      upt_rec)

lemma demo_conf:
  "tp_conf demo_bogus
     = \<lparr> calc_scores = ''softmax'', padding_with_center = False, tp_no_mlp = False,
         tp_LoDs = True, k_cin = False, depth_wise = False, with_trick = False,
         precompute_indices = False, tp_method = ''Triplane'', tp_baseGridSize = 128,
         tp_n_comp = 8, tp_neiGridSize = 1, tp_m = 8, tp_cin = 1, tp_cout = 1 \<rparr>"
  by (simp add: demo_bogus_def TriplaneConv_init_def Let_def)

lemma demo_conf_fields:
  "tp_method (tp_conf demo_bogus) = ''Triplane''" "tp_no_mlp (tp_conf demo_bogus) = False"
  "depth_wise (tp_conf demo_bogus) = False" "with_trick (tp_conf demo_bogus) = False"
  "tp_cin (tp_conf demo_bogus) = Suc 0" "tp_cout (tp_conf demo_bogus) = Suc 0"
  by (simp_all add: demo_conf)

lemma demo_mlp:
  "tp_mlp_map (tp_par demo_bogus) mat
     = Inr (map (\<lambda>row. [sum_list row]) mat)"
  by (simp add: demo_bogus_def TriplaneConv_init_def demo_env_def Let_def)

lemma demo_offsets:
  "normalized_offsets [(0, 0, 0)] [(0, 0, 0)] [[0]] 1 = Inr [[(0, 0, 0)]]"
  by (simp add: normalized_offsets_def add_shadow_point_def index_rows2_def index_ok_def
      wrap_index_def center_neighborhoods_def broadcast2_def psub_def pscale_def and_then_def)

lemma demo_samples:
  "sample_planes (tp_nei_plane (tp_par demo_bogus))
     [(0, 0, 0)]
   = Inr [[[1 / 10], [1 / 10], [1 / 10], [1 / 10], [1 / 10], [1 / 10], [1 / 10], [1 / 10]],
          [[1 / 10], [1 / 10], [1 / 10], [1 / 10], [1 / 10], [1 / 10], [1 / 10], [1 / 10]],
          [[1 / 10], [1 / 10], [1 / 10], [1 / 10], [1 / 10], [1 / 10], [1 / 10], [1 / 10]]]"
  by (simp add: demo_planes sample_planes_def nei_coordinate_plane_def matMode_def coord_def
      coords_of_def grid_sample_def demo_sample and_then_def upt_rec)

lemma demo_field:
  assumes "tp_method cfg = ''Triplane''" and "\<not> tp_no_mlp cfg"
  shows "tp_tensor_field cfg (tp_par demo_bogus) [[(0, 0, 0)]] = Inr [[12 / 5]]"
  using assms
  by (simp add: tp_tensor_field_def demo_samples demo_mlp and_then_def
      columns_def Let_def upt_rec)

theorem TriplaneConv_accepts_unknown_aggregation_counterexample:
  "snd (snd (TriplaneConv_forward demo_feat_trans
       demo_bogus
       [(0, 0, 0)] [(0, 0, 0)] [[0]] 1 [[1]])) = Inr [[12 / 5]]
   \<and> ''bogus'' \<notin> set aggregation_modes"
proof -
  have c: "contract (Suc 0) [[1]] [[[12 / 5]]] = Inr [12 / 5]"
    by (simp add: contract_def upt_rec)
  have v: "view_nkio (Suc 0) (Suc 0) (Suc 0) (Suc 0) [[12 / 5]] = Inr [[[[12 / 5]]]]"
    by (simp add: view_nkio_def upt_rec)
  have d: "direct_conv (tp_conf demo_bogus)
       (tp_par demo_bogus) [[1], [0]] [[0]] [[(0, 0, 0)]]
     = Inr [[12 / 5]]"
    by (simp add: direct_conv_def demo_field [of "tp_conf demo_bogus"] demo_conf_fields
        index_rows2_def index_ok_def wrap_index_def and_then_def v c)
  show ?thesis
    by (simp add: TriplaneConv_forward_def demo_offsets and_then_def zeros_like_first_def
        demo_conf_fields d aggregation_modes_def)
qed

end
